theory Spec2Isabelle
  imports Main "HOL-Library.Sublist"
begin

section \<open>Strings of the Go standard library\<close>

text \<open>
  A Go string is a sequence of bytes, here a \<open>string\<close> (a list of \<open>char\<close>, one per byte);
  text beyond ASCII is written as its UTF-8 bytes. The functions of packages
  \<open>strings\<close> and \<open>regexp\<close> that the calculator calls are modelled on bytes. The classes
  \<open>\d\<close> and \<open>\b\<close> of Go's regexp are ASCII only; \<open>strings.ToLower\<close> and
  \<open>strings.TrimSpace\<close> read the text as UTF-8 and act on runes.
\<close>

definition isDigit :: "char \<Rightarrow> bool" where
  "isDigit c = (c \<in> set ''0123456789'')"

definition isWordChar :: "char \<Rightarrow> bool" where
  "isWordChar c =
     (c \<in> set ''0123456789abcdefghijklmnopqrstuvwxyzABCDEFGHIJKLMNOPQRSTUVWXYZ_'')"

subsection \<open>UTF-8\<close>

text \<open>
  \<open>utf8.DecodeRuneInString\<close>: the first rune of a text and the number of bytes it takes.
  A byte that begins no well-formed encoding (a stray continuation byte, an overlong or
  truncated encoding, a surrogate, a value beyond U+10FFFF) is read as \<open>RuneError\<close> of
  width 1. A rune is an integer (\<open>int32\<close> in Go; the values here lie between 0 and
  U+10FFFF).
\<close>

definition RuneError :: int where
  "RuneError = 0xFFFD"

definition continuation :: "int \<Rightarrow> bool" where
  "continuation b = (0x80 \<le> b \<and> b \<le> 0xBF)"

definition decode2 :: "int \<Rightarrow> string \<Rightarrow> int \<times> nat" where
  "decode2 b0 cs =
     (case cs of
        c1 # _ \<Rightarrow>
          (let b1 = of_char c1 in
           if continuation b1 then ((b0 mod 0x20) * 0x40 + b1 mod 0x40, 2)
           else (RuneError, 1))
      | _ \<Rightarrow> (RuneError, 1))"

definition decode3 :: "int \<Rightarrow> string \<Rightarrow> int \<times> nat" where
  "decode3 b0 cs =
     (case cs of
        c1 # c2 # _ \<Rightarrow>
          (let b1 = of_char c1; b2 = of_char c2 in
           if (if b0 = 0xE0 then 0xA0 else 0x80) \<le> b1 \<and>
              b1 \<le> (if b0 = 0xED then 0x9F else 0xBF) \<and> continuation b2
           then ((b0 mod 0x10) * 0x1000 + (b1 mod 0x40) * 0x40 + b2 mod 0x40, 3)
           else (RuneError, 1))
      | _ \<Rightarrow> (RuneError, 1))"

definition decode4 :: "int \<Rightarrow> string \<Rightarrow> int \<times> nat" where
  "decode4 b0 cs =
     (case cs of
        c1 # c2 # c3 # _ \<Rightarrow>
          (let b1 = of_char c1; b2 = of_char c2; b3 = of_char c3 in
           if (if b0 = 0xF0 then 0x90 else 0x80) \<le> b1 \<and>
              b1 \<le> (if b0 = 0xF4 then 0x8F else 0xBF) \<and>
              continuation b2 \<and> continuation b3
           then ((b0 mod 0x08) * 0x40000 + (b1 mod 0x40) * 0x1000 +
                 (b2 mod 0x40) * 0x40 + b3 mod 0x40, 4)
           else (RuneError, 1))
      | _ \<Rightarrow> (RuneError, 1))"

fun DecodeRune :: "string \<Rightarrow> int \<times> nat" where
  "DecodeRune [] = (RuneError, 0)"
| "DecodeRune (c # cs) =
     (let b0 = of_char c in
      if b0 < 0x80 then (b0, 1)
      else if b0 < 0xC2 then (RuneError, 1)
      else if b0 < 0xE0 then decode2 b0 cs
      else if b0 < 0xF0 then decode3 b0 cs
      else if b0 < 0xF5 then decode4 b0 cs
      else (RuneError, 1))"

text \<open>
  The runes of a text, as \<open>for _, c := range s\<close> yields them. The first argument counts
  the bytes still to skip of the rune that was read last.
\<close>

fun runesFrom :: "nat \<Rightarrow> string \<Rightarrow> int list" where
  "runesFrom k [] = []"
| "runesFrom 0 (c # cs) =
     fst (DecodeRune (c # cs)) # runesFrom (snd (DecodeRune (c # cs)) - 1) cs"
| "runesFrom (Suc k) (c # cs) = runesFrom k cs"

definition runes :: "string \<Rightarrow> int list" where
  "runes s = runesFrom 0 s"

text \<open>\<open>utf8.AppendRune\<close>: a surrogate or a value beyond U+10FFFF is written as U+FFFD.\<close>

definition EncodeRune :: "int \<Rightarrow> string" where
  "EncodeRune r =
     (if r < 0x80 then [char_of r]
      else if r < 0x800 then [char_of (0xC0 + r div 0x40), char_of (0x80 + r mod 0x40)]
      else if 0x10FFFF < r \<or> (0xD800 \<le> r \<and> r \<le> 0xDFFF) then
        [CHR 0xEF, CHR 0xBF, CHR 0xBD]
      else if r < 0x10000 then
        [char_of (0xE0 + r div 0x1000), char_of (0x80 + r div 0x40 mod 0x40),
         char_of (0x80 + r mod 0x40)]
      else
        [char_of (0xF0 + r div 0x40000), char_of (0x80 + r div 0x1000 mod 0x40),
         char_of (0x80 + r div 0x40 mod 0x40), char_of (0x80 + r mod 0x40)])"

subsection \<open>\<open>strings.ToLower\<close>\<close>

text \<open>
  A text of ASCII bytes only is lower-cased byte by byte. Any other text is mapped rune by
  rune with \<open>unicode.ToLower\<close> and encoded again (\<open>strings.Map\<close>, which drops a rune
  mapped to a negative value), so that every byte that is not well-formed UTF-8 comes
  out as U+FFFD. \<open>unicode.ToLower\<close> lower-cases the letters A to Z itself; for a rune
  beyond ASCII it looks up the case tables of the Unicode standard, which are taken as
  the parameter \<open>caseTable\<close>, from runes to runes (in these tables U+0130 and U+212A
  are the two runes beyond ASCII whose lower case is an ASCII letter, \<open>i\<close> and \<open>k\<close>).
\<close>

definition lowerChar :: "char \<Rightarrow> char" where
  "lowerChar c =
     (case map_of (zip ''ABCDEFGHIJKLMNOPQRSTUVWXYZ'' ''abcdefghijklmnopqrstuvwxyz'') c of
        None \<Rightarrow> c | Some d \<Rightarrow> d)"

definition unicode_ToLower :: "(int \<Rightarrow> int) \<Rightarrow> int \<Rightarrow> int" where
  "unicode_ToLower caseTable r =
     (if r \<le> 0x7F then (if 0x41 \<le> r \<and> r \<le> 0x5A then r + 0x20 else r)
      else caseTable r)"

definition ToLower :: "(int \<Rightarrow> int) \<Rightarrow> string \<Rightarrow> string" where
  "ToLower caseTable s =
     (if list_all (\<lambda>c. (of_char c :: int) < 0x80) s then map lowerChar s
      else concat (map (\<lambda>r. if 0 \<le> unicode_ToLower caseTable r
                               then EncodeRune (unicode_ToLower caseTable r) else [])
                     (runes s)))"

subsection \<open>\<open>strings.TrimSpace\<close>\<close>

text \<open>
  \<open>TrimSpace\<close> removes from both ends the runes for which \<open>unicode.IsSpace\<close> holds:
  U+0009 to U+000D, U+0020, U+0085, U+00A0, U+1680, U+2000 to U+200A, U+2028, U+2029,
  U+202F, U+205F and U+3000. \<open>spaces\<close> lists their UTF-8 encodings. No encoding is the
  beginning of another one, and a text ends with the encoding of a rune exactly when
  \<open>utf8.DecodeLastRuneInString\<close> reads that rune there, so that trimming is the removal
  of these byte sequences, first at the front, then at the back.
\<close>

definition spaces :: "string list" where
  "spaces =
     [[CHR 0x09], [CHR 0x0A], [CHR 0x0B], [CHR 0x0C], [CHR 0x0D], [CHR 0x20],
      [CHR 0xC2, CHR 0x85], [CHR 0xC2, CHR 0xA0], [CHR 0xE1, CHR 0x9A, CHR 0x80],
      [CHR 0xE2, CHR 0x80, CHR 0x80], [CHR 0xE2, CHR 0x80, CHR 0x81],
      [CHR 0xE2, CHR 0x80, CHR 0x82], [CHR 0xE2, CHR 0x80, CHR 0x83],
      [CHR 0xE2, CHR 0x80, CHR 0x84], [CHR 0xE2, CHR 0x80, CHR 0x85],
      [CHR 0xE2, CHR 0x80, CHR 0x86], [CHR 0xE2, CHR 0x80, CHR 0x87],
      [CHR 0xE2, CHR 0x80, CHR 0x88], [CHR 0xE2, CHR 0x80, CHR 0x89],
      [CHR 0xE2, CHR 0x80, CHR 0x8A], [CHR 0xE2, CHR 0x80, CHR 0xA8],
      [CHR 0xE2, CHR 0x80, CHR 0xA9], [CHR 0xE2, CHR 0x80, CHR 0xAF],
      [CHR 0xE2, CHR 0x81, CHR 0x9F], [CHR 0xE3, CHR 0x80, CHR 0x80]]"

function dropPrefixes :: "string list \<Rightarrow> string \<Rightarrow> string" where
  "dropPrefixes ws s =
     (case find (\<lambda>w. w \<noteq> [] \<and> prefix w s) ws of
        None \<Rightarrow> s
      | Some w \<Rightarrow> dropPrefixes ws (drop (length w) s))"
  by pat_completeness auto
termination
  by (relation "measure (\<lambda>(ws, s). length s)") (auto simp: find_Some_iff prefix_def)

definition TrimSpace :: "string \<Rightarrow> string" where
  "TrimSpace s = rev (dropPrefixes (map rev spaces) (rev (dropPrefixes spaces s)))"

subsection \<open>Searching and replacing\<close>

definition HasPrefix :: "string \<Rightarrow> string \<Rightarrow> bool" where
  "HasPrefix s p = (length p \<le> length s \<and> take (length p) s = p)"

text \<open>\<open>strings.Index\<close>: the position of the first occurrence, \<open>-1\<close> when there is none.\<close>

fun Index :: "string \<Rightarrow> string \<Rightarrow> int" where
  "Index [] sub = (if sub = [] then 0 else - 1)"
| "Index (c # cs) sub =
     (if HasPrefix (c # cs) sub then 0
      else (let r = Index cs sub in if r < 0 then - 1 else r + 1))"

definition Contains :: "string \<Rightarrow> string \<Rightarrow> bool" where
  "Contains s sub = (0 \<le> Index s sub)"

text \<open>
  \<open>strings.ReplaceAll\<close>: the occurrences of \<open>old\<close> are replaced from left to right, without
  overlap. Every call of the program passes a non-empty \<open>old\<close>; for an empty one (where Go
  inserts \<open>new\<close> around every rune) the model returns the text as it is.
\<close>

function ReplaceAll :: "string \<Rightarrow> string \<Rightarrow> string \<Rightarrow> string" where
  "ReplaceAll [] old new = []"
| "ReplaceAll (c # cs) old new =
     (if old \<noteq> [] \<and> HasPrefix (c # cs) old
      then new @ ReplaceAll (drop (length old) (c # cs)) old new
      else c # ReplaceAll cs old new)"
  by pat_completeness auto
termination
  by (relation "measure (\<lambda>(s, old, new). length s)") auto

text \<open>\<open>strings.Split\<close> at a separator of one byte, as the program calls it.\<close>

fun Split :: "string \<Rightarrow> char \<Rightarrow> string list" where
  "Split [] sep = [[]]"
| "Split (c # cs) sep =
     (if c = sep then [] # Split cs sep
      else (case Split cs sep of [] \<Rightarrow> [[c]] | part # parts \<Rightarrow> (c # part) # parts))"

text \<open>\<open>strconv\<close>'s decimal rendering, as \<open>fmt.Sprintf("%d", k)\<close> gives it.\<close>

function natToDec :: "nat \<Rightarrow> string" where
  "natToDec n =
     (if n < 10 then [''0123456789'' ! n]
      else natToDec (n div 10) @ [''0123456789'' ! (n mod 10)])"
  by pat_completeness auto
termination
  by (relation "measure id") auto

definition Itoa :: "int \<Rightarrow> string" where
  "Itoa k = (if k < 0 then CHR ''-'' # natToDec (nat (- k)) else natToDec (nat k))"

subsection \<open>The regular expression \<open>\bans\b\<close>\<close>

text \<open>
  A match of \<open>\bans\b\<close> is an occurrence of \<open>ans\<close> with no word character right before it
  and none right after it. The scan goes from left to right; \<open>prevWord\<close> says whether the
  byte before the current position is a word character. After a match the scan goes on
  behind it, where the byte before is the \<open>s\<close> of the match.
\<close>

definition ansAt :: "bool \<Rightarrow> string \<Rightarrow> bool" where
  "ansAt prevWord s =
     (\<not> prevWord \<and> HasPrefix s ''ans'' \<and>
      (case drop 3 s of [] \<Rightarrow> True | d # _ \<Rightarrow> \<not> isWordChar d))"

fun ansMatch :: "bool \<Rightarrow> string \<Rightarrow> bool" where
  "ansMatch prevWord [] = False"
| "ansMatch prevWord (c # cs) =
     (if ansAt prevWord (c # cs) then True else ansMatch (isWordChar c) cs)"

text \<open>
  \<open>Regexp.ReplaceAllString\<close> reads its replacement as a template (\<open>Regexp.Expand\<close>):
  \<open>$$\<close> is a dollar sign, \<open>$name\<close> and \<open>${name}\<close> stand for a submatch, and a dollar sign
  followed by no name is itself. \<open>\bans\b\<close> has no group: \<open>$0\<close> is the match, \<open>ans\<close>, and
  every other name expands to nothing. A name is made of letters, digits and \<open>_\<close>; the
  model reads the ASCII ones.
\<close>

definition group :: "string \<Rightarrow> string" where
  "group name = (if name = ''0'' then ''ans'' else [])"

function expand :: "string \<Rightarrow> string" where
  "expand [] = []"
| "expand (c # t) =
     (if c \<noteq> CHR ''$'' then c # expand t
      else (case t of
          [] \<Rightarrow> ''$''
        | d # t' \<Rightarrow>
            if d = CHR ''$'' then CHR ''$'' # expand t'
            else if d = CHR ''{'' then
              (let name = takeWhile isWordChar t'; rest = dropWhile isWordChar t'
               in if name \<noteq> [] \<and> rest \<noteq> [] \<and> hd rest = CHR ''}''
                  then group name @ expand (tl rest)
                  else CHR ''$'' # expand t)
            else
              (let name = takeWhile isWordChar t; rest = dropWhile isWordChar t
               in if name \<noteq> [] then group name @ expand rest
                  else CHR ''$'' # expand t)))"
  by pat_completeness auto
termination
proof (relation "measure length", goal_cases)
  case 1
  show ?case by simp
next
  case (2 c t)
  then show ?case by simp
next
  case (3 c t d t')
  then show ?case by simp
next
  case (4 c t d t' name rest)
  have "length (dropWhile isWordChar t') \<le> length t'"
    by (rule length_dropWhile_le)
  with 4 show ?case by simp
next
  case (5 c t d t' name rest)
  then show ?case by simp
next
  case (6 c t d t' name rest)
  have "length (dropWhile isWordChar t) \<le> length t"
    by (rule length_dropWhile_le)
  with 6 show ?case by simp
next
  case (7 c t d t' name rest)
  then show ?case by simp
qed

fun ansReplaceAll :: "bool \<Rightarrow> string \<Rightarrow> string \<Rightarrow> string" where
  "ansReplaceAll prevWord [] repl = []"
| "ansReplaceAll prevWord (c # cs) repl =
     (if ansAt prevWord (c # cs) then expand repl @ ansReplaceAll True (drop 2 cs) repl
      else c # ansReplaceAll (isWordChar c) cs repl)"

section \<open>The calculator\<close>

text \<open>
  What the calculator takes from outside the repository. From libqalculate, through cgo:
  \<open>calculate_expression\<close>, the call that evaluates a text (\<open>None\<close> for a nil result), and
  the two lists that \<open>getLibqalculateCompletions\<close> caches at its first call,
  \<open>basicFunctions\<close> and \<open>advancedFunctions\<close>. \<open>prettyPrint\<close>, the two regular-expression
  rewrites of a result into superscripts, is taken as a function too. From the Go
  library: \<open>unicodeLowerCase\<close>, the lower case of a rune beyond ASCII in the case tables
  of package \<open>unicode\<close>.
\<close>

record Engine =
  calculate_expression :: "string \<Rightarrow> string option"
  basicFunctions :: "string list"
  advancedFunctions :: "string list"
  prettyPrint :: "string \<Rightarrow> string"
  unicodeLowerCase :: "int \<Rightarrow> int"

text \<open>
  \<open>getLibqalculateCompletions\<close> fills the two lists from the active functions and the
  active variables of libqalculate, each given with its reference name and its category
  (\<open>get_function_name\<close>, \<open>get_function_category\<close>, \<open>get_variable_name\<close>,
  \<open>get_variable_category\<close>). A function goes to one of the two lists by its category;
  every variable that is kept is appended to \<open>advancedFunctions\<close>.
\<close>

definition advancedCategory :: "string \<Rightarrow> bool" where
  "advancedCategory category =
     (category = ''Utilities'' \<or> category = ''Step Functions'' \<or>
      Contains category ''Utilities/'' \<or> Contains category ''Statistics/'' \<or>
      Contains category ''Economics/'' \<or> Contains category ''Geometry/'' \<or>
      Contains category ''Special Functions/'' \<or> category = ''Combinatorics'' \<or>
      category = ''Logical'' \<or> category = ''Date & Time'' \<or>
      category = ''Miscellaneous'' \<or> category = ''Number Theory/Arithmetics'' \<or>
      category = ''Number Theory/Integers'' \<or> category = ''Number Theory/Number Bases'' \<or>
      category = ''Number Theory/Polynomials'' \<or>
      category = ''Number Theory/Prime Numbers'' \<or>
      category = ''Calculus/Named Integrals'' \<or> category = ''Economics'' \<or>
      category = ''Special Functions'' \<or> category = ''Complex Numbers'')"

fun addFunctions ::
    "(string \<times> string) list \<Rightarrow> string list \<times> string list \<Rightarrow> string list \<times> string list" where
  "addFunctions [] (basic, advanced) = (basic, advanced)"
| "addFunctions ((func_name, category) # fs) (basic, advanced) =
     (if func_name = [] \<or> category = [] then addFunctions fs (basic, advanced)
      else if advancedCategory category then addFunctions fs (basic, advanced @ [func_name])
      else if category = ''Exponents & Logarithms'' \<and>
              func_name \<in> set [''lambertw'', ''cis'', ''sqrtpi'', ''pow'', ''exp10'', ''exp2'']
        then addFunctions fs (basic, advanced @ [func_name])
      else if category = ''Matrices & Vectors'' \<and>
              func_name \<in> set [''export'', ''genvector'', ''load'', ''permanent'', ''area'',
                               ''matrix2vector'']
        then addFunctions fs (basic, advanced @ [func_name])
      else addFunctions fs (basic @ [func_name], advanced))"

fun addVariables ::
    "(string \<times> string) list \<Rightarrow> string list \<times> string list \<Rightarrow> string list \<times> string list" where
  "addVariables [] (basic, advanced) = (basic, advanced)"
| "addVariables ((name, category) # vs) (basic, advanced) =
     (if name = [] \<or> category = [] \<or> category = ''Temporary'' \<or> category = ''Unknowns'' \<or>
         category = ''Large Numbers'' \<or> category = ''Small Numbers''
      then addVariables vs (basic, advanced)
      else addVariables vs (basic, advanced @ [name]))"

definition getLibqalculateCompletions ::
    "(string \<times> string) list \<Rightarrow> (string \<times> string) list \<Rightarrow> string list \<times> string list" where
  "getLibqalculateCompletions functions variables =
     addVariables variables (addFunctions functions ([], []))"

definition MinVariableNameLength :: nat where
  "MinVariableNameLength = 3"

definition ErrorCalculationFailed :: string where
  "ErrorCalculationFailed = ''Calculation failed''"

definition ErrorExpressionInvalid :: string where
  "ErrorExpressionInvalid = ''Invalid expression''"

definition operators :: "string list" where
  "operators = [''+'', ''-'', ''*'', ''/'', ''='', ''('', '')'']"

text \<open>The loops of \<open>CheckForCalculation\<close> return at the first element that matches.\<close>

fun anyOperator :: "string list \<Rightarrow> string \<Rightarrow> bool" where
  "anyOperator [] input = False"
| "anyOperator (op # ops) input = (if Contains input op then True else anyOperator ops input)"

fun anyFunction :: "string list \<Rightarrow> string \<Rightarrow> bool" where
  "anyFunction [] input = False"
| "anyFunction (fct # fs) input =
     (if Contains input (fct @ ''('') then True else anyFunction fs input)"

fun anyVariable :: "string list \<Rightarrow> string \<Rightarrow> bool" where
  "anyVariable [] input = False"
| "anyVariable (variable # vs) input =
     (if MinVariableNameLength < length variable \<and> Contains input variable then True
      else anyVariable vs input)"

definition CheckForCalculation :: "('a Engine_scheme) \<Rightarrow> string \<Rightarrow> bool" where
  "CheckForCalculation eng input =
     (if input = [] \<or> ReplaceAll input '' '' [] = [] then False
      else if Contains input ''http://'' then False
      else if list_ex isDigit input then True
      else if input = ''tutorial()'' then False
      else if anyOperator operators input then True
      else if anyFunction (basicFunctions eng @ advancedFunctions eng) input then True
      else if anyVariable (advancedFunctions eng) input then True
      else if HasPrefix input ''ans'' then True
      else False)"

text \<open>The currency signs and the degree sign, as UTF-8.\<close>

definition euroSign :: string where "euroSign = [CHR 0xE2, CHR 0x82, CHR 0xAC]"
definition poundSign :: string where "poundSign = [CHR 0xC2, CHR 0xA3]"
definition yenSign :: string where "yenSign = [CHR 0xC2, CHR 0xA5]"
definition degreeSign :: string where "degreeSign = [CHR 0xC2, CHR 0xB0]"

definition prepareString :: "string \<Rightarrow> string" where
  "prepareString input =
     (let commentPos = Index input ''//'';
          result = (if commentPos \<noteq> - 1 then take (nat commentPos) input else input);
          result = ReplaceAll result euroSign ''EUR'';
          result = ReplaceAll result ''$'' ''USD'';
          result = ReplaceAll result poundSign ''GBP'';
          result = ReplaceAll result yenSign ''JPY''
      in result)"

definition postString :: "('a Engine_scheme) \<Rightarrow> string \<Rightarrow> string" where
  "postString eng output =
     (let result = ReplaceAll output ''EUR'' euroSign;
          result = ReplaceAll result ''USD'' ''$'';
          result = ReplaceAll result ''GBP'' poundSign;
          result = ReplaceAll result ''JPY'' yenSign;
          result = ReplaceAll result (CHR '' '' # degreeSign) degreeSign
      in prettyPrint eng result)"

text \<open>The two easter eggs: a shrug for \<open>0/0\<close>, and a line on the void for infinity.\<close>

definition shrug :: string where
  "shrug = [CHR 0xC2, CHR 0xAF] @ [CHR 0x5C] @ ''_('' @ [CHR 0xE3, CHR 0x83, CHR 0x84] @ '')_/''
            @ [CHR 0xC2, CHR 0xAF]"

definition voidStares :: string where
  "voidStares = [CHR 0xE2, CHR 0x88, CHR 0x9E] @ '' The void stares back ''
            @ [CHR 0xE2, CHR 0x88, CHR 0x9E]"

subsection \<open>References to earlier results\<close>

definition ansPattern :: "int \<Rightarrow> string" where
  "ansPattern i = ''ans'' @ Itoa (i + 1)"

text \<open>
  The first loop of \<open>CalculateExpression\<close>:
  \<open>for i := 0; i < currentIndex && i < len(results); i++\<close>. The counter starts at 0 and
  only grows; the test \<open>0 \<le> i\<close> is there for the index \<open>nat i\<close>.
\<close>

function numberedAns :: "int \<Rightarrow> int \<Rightarrow> string list \<Rightarrow> string \<Rightarrow> string" where
  "numberedAns i currentIndex results processedExpr =
     (if 0 \<le> i \<and> i < currentIndex \<and> i < int (length results) then
        numberedAns (i + 1) currentIndex results
          (if results ! nat i \<noteq> [] then ReplaceAll processedExpr (ansPattern i) (results ! nat i)
           else ReplaceAll processedExpr (ansPattern i) ''0'')
      else processedExpr)"
  by pat_completeness auto
termination
  by (relation "measure (\<lambda>(i, currentIndex, results, e). nat (currentIndex - i))") auto

text \<open>
  The second loop, \<open>for i := currentIndex - 1; i >= 0; i--\<close>, reads \<open>results[i]\<close> with no
  check against the length: beyond it the program panics, the outer \<open>None\<close>. \<open>Some None\<close>
  is the loop ending with \<open>replaced\<close> false.
\<close>

function lastResult :: "int \<Rightarrow> string list \<Rightarrow> string option option" where
  "lastResult i results =
     (if 0 \<le> i then
        (if nat i < length results then
           (if results ! nat i \<noteq> [] then Some (Some (results ! nat i))
            else lastResult (i - 1) results)
         else None)
      else Some None)"
  by pat_completeness auto
termination
  by (relation "measure (\<lambda>(i, results). nat (i + 1))") auto

definition bareAns :: "string \<Rightarrow> string list \<Rightarrow> int \<Rightarrow> string option" where
  "bareAns processedExpr results currentIndex =
     (if ansMatch False processedExpr then
        (case lastResult (currentIndex - 1) results of
           None \<Rightarrow> None
         | Some (Some r) \<Rightarrow> Some (ansReplaceAll False processedExpr r)
         | Some None \<Rightarrow> Some (ansReplaceAll False processedExpr ''0''))
      else Some processedExpr)"

text \<open>The text that \<open>CalculateExpression\<close> hands to libqalculate.\<close>

definition resolveReferences :: "string \<Rightarrow> string list \<Rightarrow> int \<Rightarrow> string option" where
  "resolveReferences expr results currentIndex =
     bareAns (numberedAns 0 currentIndex results (prepareString expr)) results currentIndex"

text \<open>What \<open>CalculateExpression\<close> makes of the text that libqalculate returns.\<close>

definition oracleResult :: "('a Engine_scheme) \<Rightarrow> string \<Rightarrow> string" where
  "oracleResult eng processedExpr =
     (case calculate_expression eng processedExpr of
        None \<Rightarrow> ErrorCalculationFailed
      | Some rawResult \<Rightarrow>
          if rawResult = [] then ErrorExpressionInvalid
          else (let trimmedResult = TrimSpace rawResult in
            if Contains (ToLower (unicodeLowerCase eng) trimmedResult) ''error'' \<or>
               Contains (ToLower (unicodeLowerCase eng) trimmedResult) ''undefined'' \<or>
               Contains (ToLower (unicodeLowerCase eng) trimmedResult) ''invalid''
            then trimmedResult
            else postString eng trimmedResult))"

definition CalculateExpression ::
    "('a Engine_scheme) \<Rightarrow> string \<Rightarrow> string list \<Rightarrow> int \<Rightarrow> string option" where
  "CalculateExpression eng expr results currentIndex =
     (if expr = [] then Some []
      else (let trimmedExpr = TrimSpace (ToLower (unicodeLowerCase eng) expr) in
        if trimmedExpr = ''0/0'' then Some shrug
        else if trimmedExpr = ''infinity'' \<or> trimmedExpr = ''inf'' then Some voidStares
        else if \<not> CheckForCalculation eng expr then Some []
        else (case resolveReferences expr results currentIndex of
                None \<Rightarrow> None
              | Some processedExpr \<Rightarrow> Some (oracleResult eng processedExpr))))"

subsection \<open>The classifier as the specification words it\<close>

text \<open>
  The rule list of the specification, first match decides, over the names of functions
  and of variables that are known. It is compared with \<open>CheckForCalculation\<close> below.
  White space is read as the six ASCII blanks.
\<close>

definition isSpace :: "char \<Rightarrow> bool" where
  "isSpace c = (c \<in> set [CHR '' '', CHR 0x09, CHR 0x0A, CHR 0x0B, CHR 0x0C, CHR 0x0D])"

definition whitespaceOnly :: "string \<Rightarrow> bool" where
  "whitespaceOnly s = (\<forall>c\<in>set s. isSpace c)"

definition ShouldEvaluate :: "string list \<Rightarrow> string list \<Rightarrow> string \<Rightarrow> bool" where
  "ShouldEvaluate functionNames variableNames s =
     (if whitespaceOnly s then False
      else if sublist ''http://'' s then False
      else if (\<exists>c\<in>set s. isDigit c) then True
      else if s = ''tutorial()'' then False
      else if (\<exists>c\<in>set ''+-*/=()''. c \<in> set s) then True
      else if (\<exists>f\<in>set functionNames. sublist (f @ ''('') s) then True
      else if (\<exists>v\<in>set variableNames. 3 < length v \<and> sublist v s) then True
      else if prefix ''ans'' s then True
      else False)"

section \<open>The sheet\<close>

subsection \<open>Text inputs\<close>

text \<open>
  An input line is a \<open>textinput.Model\<close> of the bubbles library: of its state the sheet
  reads the text (\<open>Value()\<close>) and the cursor (\<open>Position()\<close>), which counts runes.
  \<open>SetCursor\<close> keeps the cursor within the text. \<open>SetValue\<close> moves the cursor to the end
  when the input was empty with the cursor at 0, or when the cursor would lie beyond the
  new text. The library also cleans the text it is given (control characters, line
  breaks); the texts here are taken as clean, valid UTF-8.
\<close>

record TextInput =
  Value :: string
  Position :: nat

definition RuneCount :: "string \<Rightarrow> nat" where
  "RuneCount s = length (filter (\<lambda>c. \<not> (128 \<le> (of_char c :: nat) \<and> (of_char c :: nat) < 192)) s)"

definition textinput_New :: TextInput where
  "textinput_New = \<lparr>Value = [], Position = 0\<rparr>"

definition SetCursor :: "int \<Rightarrow> TextInput \<Rightarrow> TextInput" where
  "SetCursor pos ti = ti\<lparr>Position := nat (max 0 (min pos (int (RuneCount (Value ti)))))\<rparr>"

definition SetValue :: "string \<Rightarrow> TextInput \<Rightarrow> TextInput" where
  "SetValue s ti =
     (if (Position ti = 0 \<and> Value ti = []) \<or> RuneCount s < Position ti
      then SetCursor (int (RuneCount s)) (ti\<lparr>Value := s\<rparr>)
      else ti\<lparr>Value := s\<rparr>)"

subsection \<open>The model and the undo system\<close>

text \<open>
  \<open>UndoState\<close> is the snapshot; its fields \<open>Results\<close> and \<open>Focused\<close> carry a suffix here,
  since the model has fields of these names.
\<close>

record UndoState =
  InputValues :: "string list"
  Results_s :: "string list"
  Focused_s :: int
  CursorPos :: int

record UndoSystem =
  undoStack :: "UndoState list"
  redoStack :: "UndoState list"
  maxSize :: int

definition NewUndoSystem :: UndoSystem where
  "NewUndoSystem = \<lparr>undoStack = [], redoStack = [], maxSize = 50\<rparr>"

text \<open>
  Of the \<open>Model\<close> the fields of the sheet are kept: the input lines, their results, the
  focused index, the flags of the lines under evaluation, the flag of the completion
  popup, and the pointer to the undo system (\<open>None\<close> for nil). Sizes, viewports, theme
  and the popups' contents are left out: no function below reads them.
\<close>

record Model =
  Inputs :: "TextInput list"
  Results :: "string list"
  Focused :: int
  Calculating :: "bool list"
  ShowCompletions :: bool
  UndoSystem :: "UndoSystem option"

definition InitialModel :: Model where
  "InitialModel =
     \<lparr>Inputs = [textinput_New], Results = [[]], Focused = 0, Calculating = [False],
      ShowCompletions = False, UndoSystem = Some NewUndoSystem\<rparr>"

definition createSnapshot :: "Model \<Rightarrow> UndoState" where
  "createSnapshot m =
     \<lparr>InputValues = map Value (Inputs m),
      Results_s = Results m,
      Focused_s = Focused m,
      CursorPos = (if 0 \<le> Focused m \<and> Focused m < int (length (Inputs m))
                   then int (Position (Inputs m ! nat (Focused m))) else 0)\<rparr>"

text \<open>\<open>append\<close>, then \<open>stack[1:]\<close> when the stack has grown beyond \<open>maxSize\<close>.\<close>

definition pushLimited :: "UndoState list \<Rightarrow> UndoState \<Rightarrow> int \<Rightarrow> UndoState list" where
  "pushLimited stack snapshot limit =
     (let stack = stack @ [snapshot]
      in if limit < int (length stack) then tl stack else stack)"

definition saveState :: "Model \<Rightarrow> Model" where
  "saveState m =
     (case UndoSystem m of
        None \<Rightarrow> m
      | Some us \<Rightarrow>
          m\<lparr>UndoSystem :=
               Some (us\<lparr>undoStack := pushLimited (undoStack us) (createSnapshot m) (maxSize us),
                        redoStack := []\<rparr>)\<rparr>)"

definition restoreInput :: "UndoState \<Rightarrow> nat \<Rightarrow> string \<Rightarrow> TextInput" where
  "restoreInput state i v =
     (let ti = SetValue v textinput_New
      in if int i = Focused_s state then
           (if CursorPos state \<le> int (length v) then SetCursor (CursorPos state) ti
            else SetCursor (int (length v)) ti)
         else ti)"

definition restoreState :: "Model \<Rightarrow> UndoState \<Rightarrow> Model" where
  "restoreState m state =
     (let inputs = map (\<lambda>(i, v). restoreInput state i v) (enumerate 0 (InputValues state));
          focused = Focused_s state;
          focused = (if int (length inputs) \<le> focused then int (length inputs) - 1 else focused);
          focused = (if focused < 0 then 0 else focused)
      in m\<lparr>Inputs := inputs, Results := Results_s state,
            Calculating := replicate (length inputs) False, Focused := focused\<rparr>)"

definition undo :: "Model \<Rightarrow> bool \<times> Model" where
  "undo m =
     (case UndoSystem m of
        None \<Rightarrow> (False, m)
      | Some us \<Rightarrow>
          if undoStack us = [] then (False, m)
          else (let currentState = createSnapshot m;
                    state = last (undoStack us);
                    us = us\<lparr>redoStack := pushLimited (redoStack us) currentState (maxSize us),
                            undoStack := butlast (undoStack us)\<rparr>
                in (True, restoreState (m\<lparr>UndoSystem := Some us\<rparr>) state)))"

definition redo :: "Model \<Rightarrow> bool \<times> Model" where
  "redo m =
     (case UndoSystem m of
        None \<Rightarrow> (False, m)
      | Some us \<Rightarrow>
          if redoStack us = [] then (False, m)
          else (let currentState = createSnapshot m;
                    state = last (redoStack us);
                    us = us\<lparr>undoStack := pushLimited (undoStack us) currentState (maxSize us),
                            redoStack := butlast (redoStack us)\<rparr>
                in (True, restoreState (m\<lparr>UndoSystem := Some us\<rparr>) state)))"

definition canUndo :: "Model \<Rightarrow> bool" where
  "canUndo m = (case UndoSystem m of None \<Rightarrow> False | Some us \<Rightarrow> undoStack us \<noteq> [])"

definition canRedo :: "Model \<Rightarrow> bool" where
  "canRedo m = (case UndoSystem m of None \<Rightarrow> False | Some us \<Rightarrow> redoStack us \<noteq> [])"

subsection \<open>Evaluations in flight\<close>

text \<open>
  \<open>CalculateCmd\<close> builds the command that the runtime executes on its own: it evaluates
  the expression and reports back with a \<open>CalculationMsg\<close>, which holds the index of the
  line and the result, and nothing else. The \<open>results\<close> of a command is the slice of the
  model at the time the command is built.
\<close>

datatype Cmd = CalculateCmd string "string list" int

datatype CalculationMsg = CalculationMsg int string

fun runCmd :: "('a Engine_scheme) \<Rightarrow> Cmd \<Rightarrow> CalculationMsg option" where
  "runCmd eng (CalculateCmd expr results index) =
     map_option (CalculationMsg index) (CalculateExpression eng expr results index)"

text \<open>
  The handlers index the slices of the model; an index out of range is a panic of the
  Go runtime, here \<open>None\<close>. The loop of \<open>handleCalculationMessage\<close> over the lines after the one that completed,
  \<open>for i := msg.Index + 1; i < len(m.Inputs); i++\<close>, as a recursion over these indices.
\<close>

fun cascade :: "nat list \<Rightarrow> Model \<Rightarrow> (Model \<times> Cmd list) option" where
  "cascade [] m = Some (m, [])"
| "cascade (i # rest) m =
     (let expr = Value (Inputs m ! i) in
      if expr \<noteq> [] then
        (if i < length (Calculating m) then
           (if \<not> Calculating m ! i then
              (let m = m\<lparr>Calculating := (Calculating m)[i := True]\<rparr>
               in map_option (\<lambda>(m', cmds). (m', CalculateCmd expr (Results m) (int i) # cmds))
                    (cascade rest m))
            else cascade rest m)
         else None)
      else cascade rest m)"

fun handleCalculationMessage :: "Model \<Rightarrow> CalculationMsg \<Rightarrow> (Model \<times> Cmd list) option" where
  "handleCalculationMessage m (CalculationMsg index result) =
     (if 0 \<le> index \<and> index < int (length (Results m)) then
        (if nat index < length (Calculating m) then
           cascade [nat index + 1 ..< length (Inputs m)]
             (m\<lparr>Results := (Results m)[nat index := result],
                Calculating := (Calculating m)[nat index := False]\<rparr>)
         else None)
      else Some (m, []))"

text \<open>
  The end of \<open>Update\<close>, for a message that reaches the focused text input: \<open>ti\<close> is the
  state of that input after its own \<open>Update\<close> (a key typed, a character deleted, the
  cursor moved). No snapshot is taken here.
\<close>

definition UpdateTextInput :: "Model \<Rightarrow> TextInput \<Rightarrow> (Model \<times> Cmd list) option" where
  "UpdateTextInput m ti =
     (if ShowCompletions m then Some (m, [])
      else if 0 \<le> Focused m \<and> Focused m < int (length (Inputs m)) then
        (let f = nat (Focused m);
             m = m\<lparr>Inputs := (Inputs m)[f := ti]\<rparr>;
             currentExpr = Value ti
         in if f < length (Calculating m) then
              (if \<not> Calculating m ! f \<and> currentExpr \<noteq> [] then
                 Some (m\<lparr>Calculating := (Calculating m)[f := True]\<rparr>,
                       [CalculateCmd currentExpr (Results m) (Focused m)])
               else if currentExpr = [] then
                 (if f < length (Results m) then Some (m\<lparr>Results := (Results m)[f := []]\<rparr>, [])
                  else None)
               else Some (m, []))
            else None)
      else None)"

definition insertSymbol :: "Model \<Rightarrow> string \<Rightarrow> (Model \<times> Cmd list) option" where
  "insertSymbol m symbol =
     (let m = saveState m in
      if 0 \<le> Focused m \<and> Focused m < int (length (Inputs m)) then
        (let f = nat (Focused m);
             currentValue = Value (Inputs m ! f);
             cursorPos = Position (Inputs m ! f)
         in if cursorPos \<le> length currentValue then
              (let newValue = take cursorPos currentValue @ symbol @ drop cursorPos currentValue;
                   ti = SetCursor (int cursorPos + int (length symbol))
                          (SetValue newValue (Inputs m ! f));
                   m = m\<lparr>Inputs := (Inputs m)[f := ti]\<rparr>
               in if f < length (Calculating m) then
                    (if \<not> Calculating m ! f \<and> newValue \<noteq> [] then
                       Some (m\<lparr>Calculating := (Calculating m)[f := True]\<rparr>,
                             [CalculateCmd newValue (Results m) (Focused m)])
                     else Some (m, []))
                  else None)
            else None)
      else None)"

text \<open>\<open>append(s[:i], s[i+1:]...)\<close> and \<open>append(s[:i], append([]T{x}, s[i:]...)...)\<close>.\<close>

definition removeAt :: "nat \<Rightarrow> 'a list \<Rightarrow> 'a list" where
  "removeAt i xs = take i xs @ drop (i + 1) xs"

definition insertAt :: "nat \<Rightarrow> 'a \<Rightarrow> 'a list \<Rightarrow> 'a list" where
  "insertAt i x xs = take i xs @ [x] @ drop i xs"

definition deleteLine :: "Model \<Rightarrow> Model option" where
  "deleteLine m =
     (let m = saveState m; f = nat (Focused m) in
      if 1 < length (Inputs m) then
        (if 0 \<le> Focused m \<and> f + 1 \<le> length (Inputs m) \<and> f + 1 \<le> length (Results m)
            \<and> f + 1 \<le> length (Calculating m) then
           (let m = m\<lparr>Inputs := removeAt f (Inputs m), Results := removeAt f (Results m),
                       Calculating := removeAt f (Calculating m)\<rparr>
            in Some (if int (length (Inputs m)) \<le> Focused m
                     then m\<lparr>Focused := int (length (Inputs m)) - 1\<rparr> else m))
         else None)
      else
        (if 0 \<le> Focused m \<and> f < length (Inputs m) \<and> f < length (Results m) then
           Some (m\<lparr>Inputs := (Inputs m)[f := SetCursor 0 (SetValue [] (Inputs m ! f))],
                   Results := (Results m)[f := []]\<rparr>)
         else None))"

definition clearAll :: "Model \<Rightarrow> Model" where
  "clearAll m =
     (let m = saveState m
      in m\<lparr>Inputs := [textinput_New], Results := [[]], Calculating := [False], Focused := 0\<rparr>)"

definition createNewLine :: "Model \<Rightarrow> Model option" where
  "createNewLine m =
     (let m = saveState m; insertIndex = Focused m + 1 in
      if 0 \<le> insertIndex \<and> insertIndex \<le> int (length (Inputs m))
         \<and> insertIndex \<le> int (length (Results m)) \<and> insertIndex \<le> int (length (Calculating m))
      then Some (m\<lparr>Inputs := insertAt (nat insertIndex) textinput_New (Inputs m),
                    Results := insertAt (nat insertIndex) [] (Results m),
                    Calculating := insertAt (nat insertIndex) False (Calculating m),
                    Focused := insertIndex\<rparr>)
      else None)"

definition focusPreviousLine :: "Model \<Rightarrow> Model option" where
  "focusPreviousLine m =
     (if 0 < Focused m then
        (if Focused m < int (length (Inputs m)) then Some (m\<lparr>Focused := Focused m - 1\<rparr>)
         else None)
      else Some m)"

definition focusNextLine :: "Model \<Rightarrow> Model option" where
  "focusNextLine m =
     (if Focused m < int (length (Inputs m)) - 1 then
        (if 0 \<le> Focused m then Some (m\<lparr>Focused := Focused m + 1\<rparr>) else None)
      else Some m)"

text \<open>
  \<open>triggerCalculationIfNeeded\<close> submits the focused line, or clears its result when the
  line is empty; the handlers of the completion popup call it after \<open>insertCompletion\<close>.
\<close>

definition triggerCalculationIfNeeded :: "Model \<Rightarrow> (Model \<times> Cmd list) option" where
  "triggerCalculationIfNeeded m =
     (if 0 \<le> Focused m \<and> Focused m < int (length (Inputs m)) then
        (let f = nat (Focused m); currentExpr = Value (Inputs m ! f)
         in if f < length (Calculating m) then
              (if \<not> Calculating m ! f \<and> currentExpr \<noteq> [] then
                 Some (m\<lparr>Calculating := (Calculating m)[f := True]\<rparr>,
                       [CalculateCmd currentExpr (Results m) (Focused m)])
               else if currentExpr = [] then
                 (if f < length (Results m) then Some (m\<lparr>Results := (Results m)[f := []]\<rparr>, [])
                  else None)
               else Some (m, []))
            else None)
      else None)"

text \<open>
  The loop of \<open>insertCompletion\<close> that looks for the start of the word before the
  cursor: it steps back while the byte before is neither a space nor an operator.
\<close>

fun wordStart :: "string \<Rightarrow> nat \<Rightarrow> nat" where
  "wordStart currentValue 0 = 0"
| "wordStart currentValue (Suc k) =
     (if currentValue ! k \<noteq> CHR '' '' \<and> [currentValue ! k] \<notin> set operators
      then wordStart currentValue k else Suc k)"

definition insertCompletion :: "Model \<Rightarrow> string \<Rightarrow> Model option" where
  "insertCompletion m completion =
     (let m = saveState m in
      if 0 \<le> Focused m \<and> Focused m < int (length (Inputs m)) then
        (let f = nat (Focused m);
             currentValue = Value (Inputs m ! f);
             cursorPos = Position (Inputs m ! f)
         in if cursorPos \<le> length currentValue then
              (let start = wordStart currentValue cursorPos;
                   newValue = take start currentValue @ completion @ drop cursorPos currentValue;
                   ti = SetCursor (int start + int (length completion))
                          (SetValue newValue (Inputs m ! f))
               in Some (m\<lparr>Inputs := (Inputs m)[f := ti]\<rparr>))
            else None)
      else None)"

text \<open>
  \<open>handleMouseMessage\<close>, a left click on a result: a reference to the clicked line is
  inserted at the cursor of the focused line, by the steps of \<open>insertSymbol\<close>. A click
  on a line without a result does nothing.
\<close>

definition clickResult :: "Model \<Rightarrow> int \<Rightarrow> (Model \<times> Cmd list) option" where
  "clickResult m clickedLine =
     (if 0 \<le> clickedLine \<and> clickedLine < int (length (Results m))
         \<and> Results m ! nat clickedLine \<noteq> []
      then insertSymbol m (ansPattern clickedLine)
      else Some (m, []))"

text \<open>
  \<open>handleMouseMessage\<close>, a left click on an input line at column \<open>x\<close>: the line gets
  the focus and the cursor goes to the clicked place, or to the end of the text.
\<close>

definition clickInput :: "Model \<Rightarrow> int \<Rightarrow> int \<Rightarrow> Model option" where
  "clickInput m clickedLine x =
     (if 0 \<le> clickedLine \<and> clickedLine < int (length (Inputs m)) then
        (if 0 \<le> Focused m \<and> Focused m < int (length (Inputs m)) then
           (let f = nat clickedLine;
                inputValue = Value (Inputs m ! f);
                gutterWidth = 4;
                clickPos = x - gutterWidth - 2;
                pos = (if gutterWidth \<le> x then
                         (if int (length inputValue) \<le> clickPos then int (length inputValue)
                          else if clickPos < 0 then 0 else clickPos)
                       else int (length inputValue))
            in Some (m\<lparr>Focused := clickedLine,
                       Inputs := (Inputs m)[f := SetCursor pos (Inputs m ! f)]\<rparr>))
         else None)
      else Some m)"

definition focusFirstLine :: "Model \<Rightarrow> Model option" where
  "focusFirstLine m =
     (if Focused m \<noteq> 0 then
        (if 0 \<le> Focused m \<and> Focused m < int (length (Inputs m)) \<and> Inputs m \<noteq> []
         then Some (m\<lparr>Focused := 0\<rparr>) else None)
      else Some m)"

definition focusLastLine :: "Model \<Rightarrow> Model option" where
  "focusLastLine m =
     (let lastIndex = int (length (Inputs m)) - 1 in
      if Focused m \<noteq> lastIndex then
        (if 0 \<le> Focused m \<and> Focused m < int (length (Inputs m)) \<and> 0 \<le> lastIndex
         then Some (m\<lparr>Focused := lastIndex\<rparr>) else None)
      else Some m)"

text \<open>\<open>goToLine\<close>, with the number that the dialog holds (\<open>None\<close> when it is no number).\<close>

definition goToLine :: "Model \<Rightarrow> int option \<Rightarrow> Model option" where
  "goToLine m lineInput =
     (case lineInput of
        None \<Rightarrow> Some m
      | Some lineNumber \<Rightarrow>
          if lineNumber < 1 then Some m
          else (let targetIndex = lineNumber - 1;
                    targetIndex = (if int (length (Inputs m)) \<le> targetIndex
                                   then int (length (Inputs m)) - 1 else targetIndex)
                in if 0 \<le> Focused m \<and> Focused m < int (length (Inputs m))
                      \<and> 0 \<le> targetIndex
                   then Some (m\<lparr>Focused := targetIndex\<rparr>) else None))"

text \<open>
  \<open>addMultipleInputs\<close>: every non-blank line of the content becomes a new line at the end
  of the sheet and is evaluated at once, on the results so far.
\<close>

fun addLines :: "('a Engine_scheme) \<Rightarrow> string list \<Rightarrow> Model \<Rightarrow> Model option" where
  "addLines eng [] m = Some m"
| "addLines eng (line # rest) m =
     (let line = TrimSpace line in
      if line = [] then addLines eng rest m
      else (let newInput = SetCursor (int (length line)) (SetValue line textinput_New);
                m = m\<lparr>Inputs := Inputs m @ [newInput], Results := Results m @ [[]],
                      Calculating := Calculating m @ [False]\<rparr>;
                index = int (length (Results m)) - 1
            in case CalculateExpression eng line (Results m) index of
                 None \<Rightarrow> None
               | Some result \<Rightarrow>
                   addLines eng rest (m\<lparr>Results := (Results m)[nat index := result]\<rparr>)))"

definition addMultipleInputs :: "('a Engine_scheme) \<Rightarrow> Model \<Rightarrow> string \<Rightarrow> Model option" where
  "addMultipleInputs eng m content =
     (if content = [] then Some m
      else (case addLines eng (Split (TrimSpace content) (CHR 0x0A)) (saveState m) of
              None \<Rightarrow> None
            | Some m \<Rightarrow>
                if Inputs m = [] then
                  Some (m\<lparr>Inputs := [textinput_New], Results := [[]], Calculating := [False],
                          Focused := 0\<rparr>)
                else (let f = length (Inputs m) - 1;
                          ti = Inputs m ! f
                      in Some (m\<lparr>Focused := int f,
                                 Inputs := (Inputs m)[f := SetCursor (int (length (Value ti))) ti]\<rparr>))))"

text \<open>
  \<open>pasteInputTemplate\<close> takes a snapshot and adds the lines of the template, the embedded
  file \<open>input.txt\<close>, whose text is the argument here.
\<close>

definition pasteInputTemplate :: "('a Engine_scheme) \<Rightarrow> Model \<Rightarrow> string \<Rightarrow> Model option" where
  "pasteInputTemplate eng m inputTemplate = addMultipleInputs eng (saveState m) inputTemplate"

text \<open>
  \<open>handlePasteMessage\<close>: content with a line break goes to \<open>addMultipleInputs\<close>; other
  content is inserted at the cursor of the focused line, with no snapshot.
\<close>

definition handlePasteMessage ::
    "('a Engine_scheme) \<Rightarrow> Model \<Rightarrow> string \<Rightarrow> (Model \<times> Cmd list) option" where
  "handlePasteMessage eng m content =
     (if CHR 0x0A \<in> set content then
        map_option (\<lambda>m. (m, [])) (addMultipleInputs eng m content)
      else if content \<noteq> [] then
        (if 0 \<le> Focused m \<and> Focused m < int (length (Inputs m)) then
           (let f = nat (Focused m);
                currentValue = Value (Inputs m ! f);
                cursorPos = Position (Inputs m ! f)
            in if cursorPos \<le> length currentValue then
                 (let newValue = take cursorPos currentValue @ content @ drop cursorPos currentValue;
                      ti = SetCursor (int cursorPos + int (length content))
                             (SetValue newValue (Inputs m ! f));
                      m = m\<lparr>Inputs := (Inputs m)[f := ti]\<rparr>
                  in if f < length (Calculating m) then
                       (if \<not> Calculating m ! f \<and> newValue \<noteq> [] then
                          Some (m\<lparr>Calculating := (Calculating m)[f := True]\<rparr>,
                                [CalculateCmd newValue (Results m) (Focused m)])
                        else Some (m, []))
                     else None)
               else None)
         else None)
      else Some (m, []))"

subsection \<open>Runs of the event loop\<close>

text \<open>
  The event loop hands one message at a time to the handlers; an action stands for one
  call of a handler that reads or writes the sheet. A completion may carry any index and
  any text: which commands are still in flight is not kept in the model. \<open>TextEdit\<close> is a
  key that reaches the focused text input, \<open>Paste\<close> pasted content with line breaks (or
  the text piped in at the start), \<open>PasteText\<close> pasted content as
  \<open>handlePasteMessage\<close> treats it, \<open>Complete\<close> a completion chosen from the popup.
\<close>

datatype Action =
    TextEdit string nat
  | InsertSymbol string
  | Complete string
  | DeleteLine
  | ClearAll
  | NewLine
  | Paste string
  | PasteTemplate string
  | PasteText string
  | ClickResult int
  | ClickInput int int
  | FocusPrevious
  | FocusNext
  | FocusFirst
  | FocusLast
  | GoToLine "int option"
  | Completion CalculationMsg
  | Undo
  | Redo

fun step :: "('a Engine_scheme) \<Rightarrow> Action \<Rightarrow> Model \<Rightarrow> Model option" where
  "step eng (TextEdit v p) m =
     map_option fst (UpdateTextInput m \<lparr>Value = v, Position = min p (RuneCount v)\<rparr>)"
| "step eng (InsertSymbol s) m = map_option fst (insertSymbol m s)"
| "step eng (Complete s) m =
     (case insertCompletion m s of
        None \<Rightarrow> None
      | Some m' \<Rightarrow> map_option fst (triggerCalculationIfNeeded m'))"
| "step eng DeleteLine m = deleteLine m"
| "step eng ClearAll m = Some (clearAll m)"
| "step eng NewLine m = createNewLine m"
| "step eng (Paste content) m = addMultipleInputs eng m content"
| "step eng (PasteTemplate inputTemplate) m = pasteInputTemplate eng m inputTemplate"
| "step eng (PasteText content) m = map_option fst (handlePasteMessage eng m content)"
| "step eng (ClickResult clickedLine) m = map_option fst (clickResult m clickedLine)"
| "step eng (ClickInput clickedLine x) m = clickInput m clickedLine x"
| "step eng FocusPrevious m = focusPreviousLine m"
| "step eng FocusNext m = focusNextLine m"
| "step eng FocusFirst m = focusFirstLine m"
| "step eng FocusLast m = focusLastLine m"
| "step eng (GoToLine n) m = goToLine m n"
| "step eng (Completion msg) m = map_option fst (handleCalculationMessage m msg)"
| "step eng Undo m = Some (snd (undo m))"
| "step eng Redo m = Some (snd (redo m))"

fun run :: "('a Engine_scheme) \<Rightarrow> Action list \<Rightarrow> Model \<Rightarrow> Model option" where
  "run eng [] m = Some m"
| "run eng (a # as) m = (case step eng a m of None \<Rightarrow> None | Some m' \<Rightarrow> run eng as m')"

subsection \<open>Well-formed sheets\<close>

text \<open>
  What the handlers keep true of the model, stated for the proofs below: the three slices
  have the same, positive length, the focus is the index of a line, every cursor lies
  within its text, and the undo system exists, has limit 50 and holds well-formed
  snapshots within this limit.
\<close>

definition snapshot_ok :: "UndoState \<Rightarrow> bool" where
  "snapshot_ok s =
     (InputValues s \<noteq> [] \<and> length (Results_s s) = length (InputValues s)
      \<and> 0 \<le> Focused_s s \<and> Focused_s s < int (length (InputValues s))
      \<and> 0 \<le> CursorPos s
      \<and> CursorPos s \<le> int (RuneCount (InputValues s ! nat (Focused_s s))))"

definition cursor_ok :: "TextInput \<Rightarrow> bool" where
  "cursor_ok ti = (Position ti \<le> RuneCount (Value ti))"

definition sheet_ok :: "Model \<Rightarrow> bool" where
  "sheet_ok m =
     (Inputs m \<noteq> [] \<and> length (Results m) = length (Inputs m)
      \<and> length (Calculating m) = length (Inputs m)
      \<and> 0 \<le> Focused m \<and> Focused m < int (length (Inputs m))
      \<and> list_all cursor_ok (Inputs m))"

definition undo_ok :: "Model \<Rightarrow> bool" where
  "undo_ok m =
     (case UndoSystem m of
        None \<Rightarrow> False
      | Some us \<Rightarrow>
          maxSize us = 50 \<and> length (undoStack us) \<le> 50 \<and> length (redoStack us) \<le> 50
          \<and> list_all snapshot_ok (undoStack us) \<and> list_all snapshot_ok (redoStack us))"

section \<open>Facts about the string functions\<close>

declare dropPrefixes.simps [simp del]

declare ReplaceAll.simps [simp del]
declare natToDec.simps [simp del]
declare numberedAns.simps [simp del]
declare lastResult.simps [simp del]
declare expand.simps [simp del]

lemma ReplaceAll_Nil [simp]: "ReplaceAll [] old new = []"
  by (simp add: ReplaceAll.simps)

lemma ReplaceAll_Cons:
  "ReplaceAll (c # cs) old new =
     (if old \<noteq> [] \<and> HasPrefix (c # cs) old
      then new @ ReplaceAll (drop (length old) (c # cs)) old new
      else c # ReplaceAll cs old new)"
  by (simp add: ReplaceAll.simps)

lemma HasPrefix_prefix: "HasPrefix s p \<longleftrightarrow> prefix p s"
  by (auto simp: HasPrefix_def prefix_def min_def) (metis append_eq_conv_conj)

lemma Index_sublist: "0 \<le> Index s sub \<longleftrightarrow> sublist sub s"
proof (induction s)
  case Nil
  then show ?case by simp
next
  case (Cons c cs)
  then show ?case
    by (auto simp: Let_def HasPrefix_prefix sublist_Cons_right)
qed

lemma Contains_sublist: "Contains s sub \<longleftrightarrow> sublist sub s"
  by (simp add: Contains_def Index_sublist)

lemma Contains_single: "Contains s [c] \<longleftrightarrow> c \<in> set s"
  by (induction s) (auto simp: Contains_def Let_def HasPrefix_def)

lemma ReplaceAll_spaces: "ReplaceAll s '' '' [] = [] \<longleftrightarrow> (\<forall>c\<in>set s. c = CHR '' '')"
  by (induction s) (auto simp: HasPrefix_def ReplaceAll_Cons)

lemma ReplaceAll_absent: "old \<noteq> [] \<Longrightarrow> hd old \<notin> set s \<Longrightarrow> ReplaceAll s old new = s"
  by (induction s) (auto simp: HasPrefix_def neq_Nil_conv ReplaceAll_Cons)

lemma sublist_set: "sublist xs ys \<Longrightarrow> set xs \<subseteq> set ys"
  by (auto simp: sublist_def)

section \<open>The classifier\<close>

lemma anyOperator_iff: "anyOperator ops input \<longleftrightarrow> (\<exists>op\<in>set ops. Contains input op)"
  by (induction ops) auto

lemma anyFunction_iff: "anyFunction fs input \<longleftrightarrow> (\<exists>f\<in>set fs. Contains input (f @ ''(''))"
  by (induction fs) auto

lemma anyVariable_iff:
  "anyVariable vs input \<longleftrightarrow> (\<exists>v\<in>set vs. MinVariableNameLength < length v \<and> Contains input v)"
  by (induction vs) auto

lemma operators_iff:
  "anyOperator operators s \<longleftrightarrow> (\<exists>c\<in>set ''+-*/=()''. c \<in> set s)"
  by (simp add: anyOperator_iff operators_def Contains_single)

lemma whitespaceOnly_rejected:
  assumes ws: "whitespaceOnly s"
    and names: "\<forall>v\<in>set (advancedFunctions eng). 3 < length v \<longrightarrow> \<not> whitespaceOnly v"
  shows "\<not> CheckForCalculation eng s"
proof -
  have sp: "\<And>c. c \<in> set s \<Longrightarrow> isSpace c"
    using ws by (simp add: whitespaceOnly_def)
  have no: "\<And>c. \<not> isSpace c \<Longrightarrow> c \<notin> set s"
    using sp by blast
  have http: "\<not> Contains s ''http://''"
  proof
    assume "Contains s ''http://''"
    then have "sublist ''http://'' s" by (simp add: Contains_sublist)
    then have "set ''http://'' \<subseteq> set s" by (rule sublist_set)
    then have "CHR ''h'' \<in> set s" by simp
    moreover have "\<not> isSpace CHR ''h''" by (simp add: isSpace_def)
    ultimately show False using no by blast
  qed
  have dig: "\<not> list_ex isDigit s"
    using sp by (auto simp: list_ex_iff isDigit_def isSpace_def)
  have tut: "s \<noteq> ''tutorial()''"
    using sp [of "CHR ''t''"] by (auto simp: isSpace_def)
  have ops: "\<not> anyOperator operators s"
    using sp by (auto simp: operators_iff isSpace_def)
  have fn: "\<not> anyFunction fs s" for fs
  proof
    assume "anyFunction fs s"
    then obtain f where "sublist (f @ ''('') s"
      by (auto simp: anyFunction_iff Contains_sublist)
    then have "set (f @ ''('') \<subseteq> set s" by (rule sublist_set)
    then have "CHR ''('' \<in> set s" by simp
    moreover have "\<not> isSpace CHR ''(''" by (simp add: isSpace_def)
    ultimately show False using no by blast
  qed
  have var: "\<not> anyVariable (advancedFunctions eng) s"
  proof
    assume "anyVariable (advancedFunctions eng) s"
    then obtain v where v: "v \<in> set (advancedFunctions eng)" "3 < length v" "sublist v s"
      by (auto simp: anyVariable_iff Contains_sublist MinVariableNameLength_def)
    from v(3) have "set v \<subseteq> set s" by (rule sublist_set)
    then have "whitespaceOnly v" using sp by (auto simp: whitespaceOnly_def)
    with v(1,2) names show False by blast
  qed
  have ans: "\<not> HasPrefix s ''ans''"
  proof
    assume "HasPrefix s ''ans''"
    then have "prefix ''ans'' s" by (simp add: HasPrefix_prefix)
    then have "set ''ans'' \<subseteq> set s" by (rule set_mono_prefix)
    then have "CHR ''a'' \<in> set s" by simp
    moreover have "\<not> isSpace CHR ''a''" by (simp add: isSpace_def)
    ultimately show False using no by blast
  qed
  show ?thesis
    unfolding CheckForCalculation_def using http dig tut ops fn var ans by simp
qed

lemma not_whitespaceOnly_first_test:
  "\<not> whitespaceOnly s \<Longrightarrow> \<not> (s = [] \<or> ReplaceAll s '' '' [] = [])"
  by (auto simp: ReplaceAll_spaces whitespaceOnly_def isSpace_def)

text \<open>
  What the code computes is the rule list in which the second cached list stands for the
  known variable names, and the two cached lists together for the known function names.
\<close>

lemma CheckForCalculation_eq:
  assumes "\<forall>v\<in>set (advancedFunctions eng). 3 < length v \<longrightarrow> \<not> whitespaceOnly v"
  shows "CheckForCalculation eng s =
         ShouldEvaluate (basicFunctions eng @ advancedFunctions eng) (advancedFunctions eng) s"
proof (cases "whitespaceOnly s")
  case True
  with assms show ?thesis
    by (simp add: whitespaceOnly_rejected ShouldEvaluate_def)
next
  case False
  then have first: "\<not> (s = [] \<or> ReplaceAll s '' '' [] = [])"
    by (rule not_whitespaceOnly_first_test)
  show ?thesis
    unfolding CheckForCalculation_def ShouldEvaluate_def
    using False first
    by (simp only: if_False Contains_sublist operators_iff anyFunction_iff anyVariable_iff
        list_ex_iff HasPrefix_prefix MinVariableNameLength_def)
qed

lemma sin_rejected: "\<not> CheckForCalculation eng ''sin''"
proof -
  have "\<not> anyFunction fs ''sin''" for fs
    by (auto simp: anyFunction_iff Contains_sublist dest!: sublist_set)
  moreover have "\<not> anyVariable vs ''sin''" for vs
    by (auto simp: anyVariable_iff Contains_sublist MinVariableNameLength_def
        dest!: sublist_length_le)
  moreover have "\<not> anyOperator operators ''sin''"
    by (simp add: operators_iff)
  ultimately show ?thesis
    by (simp add: CheckForCalculation_def isDigit_def HasPrefix_def)
qed

lemma sin30_accepted: "CheckForCalculation eng ''sin(30)''"
proof -
  have "\<not> Contains ''sin(30)'' ''http://''"
    by (auto simp: Contains_sublist dest!: sublist_set)
  moreover have "ReplaceAll ''sin(30)'' '' '' [] \<noteq> []"
    by (simp add: ReplaceAll_spaces)
  ultimately show ?thesis
    by (simp add: CheckForCalculation_def isDigit_def)
qed

lemma hello_world_rejected:
  assumes "\<forall>v\<in>set (advancedFunctions eng). 3 < length v \<longrightarrow> \<not> sublist v ''hello world''"
  shows "\<not> CheckForCalculation eng ''hello world''"
proof -
  have "\<not> anyFunction fs ''hello world''" for fs
    by (auto simp: anyFunction_iff Contains_sublist dest!: sublist_set)
  moreover have "\<not> anyVariable (advancedFunctions eng) ''hello world''"
    using assms by (auto simp: anyVariable_iff Contains_sublist MinVariableNameLength_def)
  moreover have "\<not> anyOperator operators ''hello world''"
    by (simp add: operators_iff)
  ultimately show ?thesis
    by (simp add: CheckForCalculation_def isDigit_def HasPrefix_def)
qed

text \<open>
  C2, at an input where the code does not do what the claim says. The sixth rule is about
  the names of functions, followed by \<open>(\<close>, the seventh about the names of variables
  longer than 3. The loop of the seventh rule (\<open>Check for variable usage\<close> in the code)
  runs over the second cached list, which holds the advanced functions as well as the
  variables. libqalculate lists the function \<open>lambertw\<close> in the category
  \<open>Exponents & Logarithms\<close>, and it is cached there. The text \<open>lambertw\<close> has no digit, no
  operator, no function name followed by \<open>(\<close>, no variable name and no prefix \<open>ans\<close>: the
  rule list rejects it, and \<open>CheckForCalculation\<close> accepts it. The name of the basic
  function \<open>sin\<close> alone is rejected by both.
\<close>

theorem advanced_function_name_accepted:
  "getLibqalculateCompletions
      [(''sin'', ''Trigonometry''), (''lambertw'', ''Exponents & Logarithms'')]
      [(''pi'', ''Basic Constants''), (''golden'', ''Basic Constants'')]
     = ([''sin''], [''lambertw'', ''pi'', ''golden''])
   \<and> CheckForCalculation
        \<lparr>calculate_expression = Map.empty, basicFunctions = [''sin''],
         advancedFunctions = [''lambertw'', ''pi'', ''golden''], prettyPrint = id,
         unicodeLowerCase = id\<rparr> ''lambertw''
   \<and> \<not> ShouldEvaluate [''sin'', ''lambertw''] [''pi'', ''golden''] ''lambertw''
   \<and> \<not> CheckForCalculation
        \<lparr>calculate_expression = Map.empty, basicFunctions = [''sin''],
         advancedFunctions = [''lambertw'', ''pi'', ''golden''], prettyPrint = id,
         unicodeLowerCase = id\<rparr> ''sin''
   \<and> \<not> ShouldEvaluate [''sin'', ''lambertw''] [''pi'', ''golden''] ''sin''"
proof -
  have a: "getLibqalculateCompletions
      [(''sin'', ''Trigonometry''), (''lambertw'', ''Exponents & Logarithms'')]
      [(''pi'', ''Basic Constants''), (''golden'', ''Basic Constants'')]
     = ([''sin''], [''lambertw'', ''pi'', ''golden''])"
    by code_simp
  have b: "CheckForCalculation
        \<lparr>calculate_expression = Map.empty, basicFunctions = [''sin''],
         advancedFunctions = [''lambertw'', ''pi'', ''golden''], prettyPrint = id,
         unicodeLowerCase = id\<rparr> ''lambertw''"
    by code_simp
  have c: "\<not> ShouldEvaluate [''sin'', ''lambertw''] [''pi'', ''golden''] ''lambertw''"
    by code_simp
  have d: "\<not> CheckForCalculation
        \<lparr>calculate_expression = Map.empty, basicFunctions = [''sin''],
         advancedFunctions = [''lambertw'', ''pi'', ''golden''], prettyPrint = id,
         unicodeLowerCase = id\<rparr> ''sin''"
    by code_simp
  have e: "\<not> ShouldEvaluate [''sin'', ''lambertw''] [''pi'', ''golden''] ''sin''"
    by code_simp
  from a b c d e show ?thesis by (intro conjI)
qed

section \<open>The calculator\<close>

lemma dropPrefixes_Nil: "dropPrefixes ws [] = []"
proof -
  have "find (\<lambda>w. w \<noteq> [] \<and> prefix w []) ws = None"
    by (simp add: find_None_iff)
  then show ?thesis
    by (subst dropPrefixes.simps) simp
qed

lemma TrimSpace_ToLower_Nil: "TrimSpace (ToLower caseTable []) = []"
  by (simp add: TrimSpace_def ToLower_def dropPrefixes_Nil)

text \<open>
  C9. An input whose lower-cased, trimmed form is \<open>0/0\<close> gives the shrug, the bytes
  \<open>C2 AF\<close>, backslash, \<open>_(\<close>, \<open>E3 83 84\<close>, \<open>)_/\<close>, \<open>C2 AF\<close>; one whose form is \<open>infinity\<close> or
  \<open>inf\<close> gives the line on the void, \<open>The void stares back\<close> between two signs of infinity
  (\<open>E2 88 9E\<close>) and blanks. This holds whatever the engine, the earlier results and the
  line index are: the classifier, the references and libqalculate are not consulted.
  Lower case and trimming are those of Go, on runes: a no-break space is trimmed, and
  U+0130 is lower-cased to \<open>i\<close>.
\<close>

theorem easter_eggs:
  "(TrimSpace (ToLower (unicodeLowerCase eng) expr) = ''0/0'' \<longrightarrow>
      CalculateExpression eng expr results currentIndex =
        Some [CHR 0xC2, CHR 0xAF, CHR 0x5C, CHR ''_'', CHR ''('', CHR 0xE3, CHR 0x83, CHR 0x84,
              CHR '')'', CHR ''_'', CHR ''/'', CHR 0xC2, CHR 0xAF]) \<and>
   (TrimSpace (ToLower (unicodeLowerCase eng) expr) = ''infinity'' \<or>
    TrimSpace (ToLower (unicodeLowerCase eng) expr) = ''inf'' \<longrightarrow>
      CalculateExpression eng expr results currentIndex =
        Some ([CHR 0xE2, CHR 0x88, CHR 0x9E] @ '' The void stares back '' @
              [CHR 0xE2, CHR 0x88, CHR 0x9E]))"
proof -
  have "expr \<noteq> []" if "TrimSpace (ToLower (unicodeLowerCase eng) expr) \<noteq> []"
    using that TrimSpace_ToLower_Nil by auto
  then show ?thesis
    by (auto simp: CalculateExpression_def Let_def shrug_def voidStares_def)
qed

theorem easter_eggs_witness:
  "TrimSpace (ToLower (\<lambda>r. if r = 0x130 then 0x69 else r)
       ([CHR 0xC2, CHR 0xA0] @ ''0/0'' @ [CHR 0xE2, CHR 0x80, CHR 0x83, CHR 0x0A])) = ''0/0''
   \<and> CalculateExpression
        \<lparr>calculate_expression = Map.empty, basicFunctions = [], advancedFunctions = [],
         prettyPrint = id, unicodeLowerCase = (\<lambda>r. if r = 0x130 then 0x69 else r)\<rparr>
        ([CHR 0xC2, CHR 0xA0] @ ''0/0'' @ [CHR 0xE2, CHR 0x80, CHR 0x83, CHR 0x0A]) [] 7 =
        Some [CHR 0xC2, CHR 0xAF, CHR 0x5C, CHR ''_'', CHR ''('', CHR 0xE3, CHR 0x83, CHR 0x84,
              CHR '')'', CHR ''_'', CHR ''/'', CHR 0xC2, CHR 0xAF]
   \<and> TrimSpace (ToLower (\<lambda>r. if r = 0x130 then 0x69 else r)
       ([CHR 0xC4, CHR 0xB0] @ ''NF '')) = ''inf''
   \<and> CalculateExpression
        \<lparr>calculate_expression = Map.empty, basicFunctions = [], advancedFunctions = [],
         prettyPrint = id, unicodeLowerCase = (\<lambda>r. if r = 0x130 then 0x69 else r)\<rparr>
        ([CHR 0xC4, CHR 0xB0] @ ''NF '') [''1'', ''''] 1 =
        Some ([CHR 0xE2, CHR 0x88, CHR 0x9E] @ '' The void stares back '' @
              [CHR 0xE2, CHR 0x88, CHR 0x9E])
   \<and> CalculateExpression
        \<lparr>calculate_expression = Map.empty, basicFunctions = [], advancedFunctions = [],
         prettyPrint = id, unicodeLowerCase = (\<lambda>r. if r = 0x130 then 0x69 else r)\<rparr>
        '' Infinity'' [''1'', ''''] 0 =
        Some ([CHR 0xE2, CHR 0x88, CHR 0x9E] @ '' The void stares back '' @
              [CHR 0xE2, CHR 0x88, CHR 0x9E])"
proof -
  let ?t = "\<lambda>r::int. if r = 0x130 then 0x69 else r"
  let ?eng = "\<lparr>calculate_expression = Map.empty, basicFunctions = [],
    advancedFunctions = [], prettyPrint = id, unicodeLowerCase = ?t\<rparr>"
  have a: "TrimSpace (ToLower ?t
       ([CHR 0xC2, CHR 0xA0] @ ''0/0'' @ [CHR 0xE2, CHR 0x80, CHR 0x83, CHR 0x0A])) = ''0/0''"
    by code_simp
  have b: "TrimSpace (ToLower ?t ([CHR 0xC4, CHR 0xB0] @ ''NF '')) = ''inf''"
    by code_simp
  have c: "TrimSpace (ToLower ?t '' Infinity'') = ''infinity''"
    by code_simp
  from a b c
    easter_eggs [of ?eng
      "[CHR 0xC2, CHR 0xA0] @ ''0/0'' @ [CHR 0xE2, CHR 0x80, CHR 0x83, CHR 0x0A]" "[]" 7]
    easter_eggs [of ?eng "[CHR 0xC4, CHR 0xB0] @ ''NF ''" "[''1'', '''']" 1]
    easter_eggs [of ?eng "'' Infinity''" "[''1'', '''']" 0]
  show ?thesis by simp
qed

lemma numberedAns_foldl_from:
  "0 \<le> i \<Longrightarrow>
   numberedAns i currentIndex results e =
     foldl (\<lambda>s k. ReplaceAll s (ansPattern (int k))
                     (if results ! k \<noteq> [] then results ! k else ''0''))
       e [nat i ..< nat (min currentIndex (int (length results)))]"
proof (induction i currentIndex results e rule: numberedAns.induct)
  case (1 i currentIndex results e)
  let ?n = "nat (min currentIndex (int (length results)))"
  let ?f = "\<lambda>s k. ReplaceAll s (ansPattern (int k)) (if results ! k \<noteq> [] then results ! k else ''0'')"
  show ?case
  proof (cases "0 \<le> i \<and> i < currentIndex \<and> i < int (length results)")
    case True
    then have lt: "nat i < ?n" by (auto simp: zless_nat_conj)
    have up: "[nat i ..< ?n] = nat i # [nat (i + 1) ..< ?n]"
      using lt True by (simp add: upt_conv_Cons Suc_nat_eq_nat_zadd1 add.commute)
    have eq: "(if results ! nat i \<noteq> [] then ReplaceAll e (ansPattern i) (results ! nat i)
               else ReplaceAll e (ansPattern i) ''0'') = ?f e (nat i)"
      using True by simp
    have "numberedAns i currentIndex results e =
          numberedAns (i + 1) currentIndex results (?f e (nat i))"
      by (subst numberedAns.simps) (simp only: True if_True eq simp_thms)
    also have "\<dots> = foldl ?f (?f e (nat i)) [nat (i + 1) ..< ?n]"
      using "1.IH" [OF True] True unfolding eq by simp
    finally show ?thesis by (simp add: up)
  next
    case False
    with "1.prems" have "?n \<le> nat i" by auto
    then have emp: "[nat i ..< ?n] = []" by simp
    have same: "numberedAns i currentIndex results e = e"
      by (subst numberedAns.simps) (simp only: False if_False)
    show ?thesis unfolding emp same by simp
  qed
qed

lemma expand_literal: "CHR ''$'' \<notin> set r \<Longrightarrow> expand r = r"
  by (induction r) (auto simp: expand.simps)

lemma lastResult_find:
  "i < int (length results) \<Longrightarrow>
   lastResult i results = Some (find (\<lambda>r. r \<noteq> []) (rev (take (nat (i + 1)) results)))"
proof (induction i results rule: lastResult.induct)
  case (1 i results)
  show ?case
  proof (cases "0 \<le> i")
    case True
    then have n: "nat i < length results" using "1.prems" by (simp add: nat_less_iff)
    have t: "take (nat (i + 1)) results = take (nat i) results @ [results ! nat i]"
      using True n by (simp add: nat_add_distrib take_Suc_conv_app_nth)
    show ?thesis
    proof (cases "results ! nat i \<noteq> []")
      case ne: True
      then show ?thesis
        using True n by (subst lastResult.simps) (simp add: t)
    next
      case e: False
      have "lastResult i results = lastResult (i - 1) results"
        using True n e by (subst lastResult.simps) simp
      also have "\<dots> = Some (find (\<lambda>r. r \<noteq> []) (rev (take (nat (i - 1 + 1)) results)))"
        using "1.IH" [OF True n] e "1.prems" by simp
      finally show ?thesis using e by (simp add: t)
    qed
  next
    case False
    then show ?thesis
      by (subst lastResult.simps) simp
  qed
qed

lemma answer_untouched:
  "\<not> ansMatch False ''answer'' \<and> ansReplaceAll False ''2*answer+ans'' ''7'' = ''2*answer+7''"
  by (simp add: ansAt_def HasPrefix_def isWordChar_def expand_literal)

lemma bareAns_nearest:
  assumes "currentIndex \<le> int (length results)"
  shows "bareAns e results currentIndex =
           Some (if ansMatch False e then
                   ansReplaceAll False e
                     (case find (\<lambda>r. r \<noteq> []) (rev (take (nat currentIndex) results)) of
                        None \<Rightarrow> ''0'' | Some r \<Rightarrow> r)
                 else e)"
proof -
  have "currentIndex - 1 < int (length results)" using assms by simp
  from lastResult_find [OF this] show ?thesis
    by (simp add: bareAns_def split: option.splits)
qed

lemma ansPattern_first: "ansPattern i \<noteq> [] \<and> hd (ansPattern i) = CHR ''a''"
  by (simp add: ansPattern_def)

lemma numberedAns_absent:
  "CHR ''a'' \<notin> set e \<Longrightarrow> numberedAns i currentIndex results e = e"
proof (induction i currentIndex results e rule: numberedAns.induct)
  case (1 i currentIndex results e)
  show ?case
  proof (cases "0 \<le> i \<and> i < currentIndex \<and> i < int (length results)")
    case True
    have same: "ReplaceAll e (ansPattern i) new = e" for new
      using "1.prems" ansPattern_first [of i] by (simp add: ReplaceAll_absent)
    have eq: "(if results ! nat i \<noteq> [] then ReplaceAll e (ansPattern i) (results ! nat i)
               else ReplaceAll e (ansPattern i) ''0'') = e"
      by (simp add: same)
    have later: "numberedAns (i + 1) currentIndex results e = e"
      using "1.IH" [OF True] "1.prems" unfolding eq by simp
    have "numberedAns i currentIndex results e = numberedAns (i + 1) currentIndex results e"
      by (subst numberedAns.simps) (simp only: True if_True eq simp_thms)
    with later show ?thesis by simp
  next
    case False
    show ?thesis
      by (subst numberedAns.simps) (simp only: False if_False)
  qed
qed

lemma ans12_first_pass: "ReplaceAll ''ans12'' (ansPattern 0) ''4'' = ''42''"
  by (simp add: ansPattern_def Itoa_def natToDec.simps ReplaceAll_Cons HasPrefix_def)

lemma prepareString_ans12: "prepareString ''ans12'' = ''ans12''"
  by (simp add: prepareString_def Let_def HasPrefix_def ReplaceAll_absent
      euroSign_def poundSign_def yenSign_def)

lemma CheckForCalculation_ans12: "CheckForCalculation eng ''ans12''"
proof -
  have "\<not> Contains ''ans12'' ''http://''"
    by (auto simp: Contains_sublist dest!: sublist_set)
  moreover have "ReplaceAll ''ans12'' '' '' [] \<noteq> []"
    by (simp add: ReplaceAll_spaces)
  ultimately show ?thesis
    by (simp add: CheckForCalculation_def isDigit_def)
qed

text \<open>
  C10. The numbered references are replaced as plain substrings, for \<open>i\<close> ascending, with no
  check of where a token ends: the numbered loop is a left fold of \<open>ReplaceAll\<close> over the
  indices of the earlier lines. With the current index at least 12 and \<open>4\<close> as the first
  result, the pass for \<open>i = 0\<close> rewrites \<open>ans12\<close> into \<open>42\<close>: that is the text after the
  numbered loop, the text after reference resolution, and the text that libqalculate is
  given, whatever the result of line 12 is.
\<close>

theorem ans12_rewritten_by_ans1:
  "numberedAns 0 currentIndex results e =
     foldl (\<lambda>s k. ReplaceAll s (ansPattern (int k))
                     (if results ! k \<noteq> [] then results ! k else ''0''))
       e [0 ..< nat (min currentIndex (int (length results)))]
   \<and> (12 \<le> currentIndex \<and> results \<noteq> [] \<and> results ! 0 = ''4'' \<longrightarrow>
        numberedAns 0 currentIndex results ''ans12'' = ''42''
        \<and> resolveReferences ''ans12'' results currentIndex = Some ''42''
        \<and> CalculateExpression eng ''ans12'' results currentIndex
            = Some (oracleResult eng ''42''))"
proof (intro conjI impI)
  show "numberedAns 0 currentIndex results e =
     foldl (\<lambda>s k. ReplaceAll s (ansPattern (int k))
                     (if results ! k \<noteq> [] then results ! k else ''0''))
       e [0 ..< nat (min currentIndex (int (length results)))]"
    using numberedAns_foldl_from [of 0 currentIndex results e] by simp
next
  assume h: "12 \<le> currentIndex \<and> results \<noteq> [] \<and> results ! 0 = ''4''"
  have step: "numberedAns 0 currentIndex results ''ans12'' =
              numberedAns 1 currentIndex results ''42''"
    using h by (subst numberedAns.simps) (simp add: ans12_first_pass)
  show num: "numberedAns 0 currentIndex results ''ans12'' = ''42''"
    unfolding step by (rule numberedAns_absent) simp
  show res: "resolveReferences ''ans12'' results currentIndex = Some ''42''"
    by (simp add: resolveReferences_def prepareString_ans12 num bareAns_def ansAt_def
        HasPrefix_def)
  have "ToLower (unicodeLowerCase eng) ''ans12'' = ''ans12''"
    by (simp add: ToLower_def lowerChar_def)
  moreover have "TrimSpace ''ans12'' = ''ans12''"
    by code_simp
  ultimately have low: "TrimSpace (ToLower (unicodeLowerCase eng) ''ans12'') = ''ans12''"
    by simp
  show "CalculateExpression eng ''ans12'' results currentIndex = Some (oracleResult eng ''42'')"
    by (simp add: CalculateExpression_def low res CheckForCalculation_ans12)
qed

theorem ans12_rewritten_by_ans1_witness:
  "resolveReferences ''ans12'' (replicate 13 ''4'') 13 = Some ''42''
   \<and> numberedAns 0 2 [''4'', ''5''] ''ans2-ans1'' = ''5-4''"
proof -
  have a: "(12::int) \<le> 13 \<and> replicate 13 ''4'' \<noteq> [] \<and> replicate 13 ''4'' ! 0 = ''4''"
    by simp
  have b: "foldl (\<lambda>s k. ReplaceAll s (ansPattern (int k))
                     (if [''4'', ''5''] ! k \<noteq> [] then [''4'', ''5''] ! k else ''0''))
       ''ans2-ans1'' [0 ..< nat (min 2 (int (length [''4'', ''5''])))] = ''5-4''"
    by code_simp
  from ans12_rewritten_by_ans1 [of 13 "replicate 13 ''4''" "''ans12''" "\<lparr>calculate_expression = Map.empty, basicFunctions = [],
      advancedFunctions = [], prettyPrint = id,
         unicodeLowerCase = id\<rparr>"] a
    ans12_rewritten_by_ans1 [of 2 "[''4'', ''5'']" "''ans2-ans1''" "\<lparr>calculate_expression = Map.empty, basicFunctions = [],
      advancedFunctions = [], prettyPrint = id,
         unicodeLowerCase = id\<rparr>"] b
  show ?thesis by simp
qed

text \<open>
  C3, at an input where the code does not do what the claim says. The result of the
  line before is \<open>$100\<close>. The numbered reference \<open>ans1\<close> is replaced by \<open>$100\<close>; the bare
  reference \<open>ans\<close> is replaced by nothing, since the regular expression reads \<open>$100\<close> as a
  reference to a submatch that it does not have.
\<close>

theorem bare_ans_reads_result_as_template:
  "resolveReferences ''ans1*2'' [''$100''] 1 = Some ''$100*2''
   \<and> resolveReferences ''ans*2'' [''$100''] 1 = Some ''*2''
   \<and> CalculateExpression eng ''ans*2'' [''$100''] 1 = Some (oracleResult eng ''*2'')"
proof -
  have a: "resolveReferences ''ans1*2'' [''$100''] 1 = Some ''$100*2''"
    by code_simp
  have b: "resolveReferences ''ans*2'' [''$100''] 1 = Some ''*2''"
    by code_simp
  have "ToLower (unicodeLowerCase eng) ''ans*2'' = ''ans*2''"
    by (simp add: ToLower_def lowerChar_def)
  moreover have "TrimSpace ''ans*2'' = ''ans*2''"
    by code_simp
  ultimately have low: "TrimSpace (ToLower (unicodeLowerCase eng) ''ans*2'') = ''ans*2''"
    by simp
  have "\<not> Contains ''ans*2'' ''http://''"
    by (auto simp: Contains_sublist dest!: sublist_set)
  moreover have "ReplaceAll ''ans*2'' '' '' [] \<noteq> []"
    by (simp add: ReplaceAll_spaces)
  ultimately have chk: "CheckForCalculation eng ''ans*2''"
    by (simp add: CheckForCalculation_def isDigit_def)
  have "CalculateExpression eng ''ans*2'' [''$100''] 1 = Some (oracleResult eng ''*2'')"
    by (simp add: CalculateExpression_def low b chk)
  with a b show ?thesis by simp
qed

section \<open>Completions\<close>

lemma cascade_spec:
  assumes "distinct is" and "\<forall>i\<in>set is. i < length (Calculating m)"
  shows "\<exists>m'. cascade is m =
            Some (m', map (\<lambda>j. CalculateCmd (Value (Inputs m ! j)) (Results m) (int j))
                        (filter (\<lambda>j. Value (Inputs m ! j) \<noteq> [] \<and> \<not> Calculating m ! j) is))
          \<and> Inputs m' = Inputs m \<and> Results m' = Results m \<and> Focused m' = Focused m
          \<and> UndoSystem m' = UndoSystem m \<and> ShowCompletions m' = ShowCompletions m
          \<and> length (Calculating m') = length (Calculating m)
          \<and> (\<forall>j<length (Calculating m). Calculating m' ! j =
                (Calculating m ! j \<or> (j \<in> set is \<and> Value (Inputs m ! j) \<noteq> [])))"
  using assms
proof (induction "is" arbitrary: m)
  case Nil
  then show ?case by simp
next
  case (Cons i rest)
  have i: "i < length (Calculating m)" and ni: "i \<notin> set rest" and d: "distinct rest"
    using Cons.prems by auto
  show ?case
  proof (cases "Value (Inputs m ! i) \<noteq> [] \<and> \<not> Calculating m ! i")
    case True
    let ?m1 = "m\<lparr>Calculating := (Calculating m)[i := True]\<rparr>"
    have b: "\<forall>k\<in>set rest. k < length (Calculating ?m1)"
      using Cons.prems by simp
    from Cons.IH [OF d b] obtain m' where
      c: "cascade rest ?m1 =
            Some (m', map (\<lambda>j. CalculateCmd (Value (Inputs ?m1 ! j)) (Results ?m1) (int j))
                        (filter (\<lambda>j. Value (Inputs ?m1 ! j) \<noteq> [] \<and> \<not> Calculating ?m1 ! j) rest))"
      and r: "Inputs m' = Inputs ?m1" "Results m' = Results ?m1" "Focused m' = Focused ?m1"
        "UndoSystem m' = UndoSystem ?m1" "ShowCompletions m' = ShowCompletions ?m1"
        "length (Calculating m') = length (Calculating ?m1)"
      and f: "\<forall>j<length (Calculating ?m1). Calculating m' ! j =
                (Calculating ?m1 ! j \<or> (j \<in> set rest \<and> Value (Inputs ?m1 ! j) \<noteq> []))"
      by blast
    have same: "filter (\<lambda>j. Value (Inputs ?m1 ! j) \<noteq> [] \<and> \<not> Calculating ?m1 ! j) rest
              = filter (\<lambda>j. Value (Inputs m ! j) \<noteq> [] \<and> \<not> Calculating m ! j) rest"
    proof (rule filter_cong [OF refl])
      fix x
      assume "x \<in> set rest"
      then have "i \<noteq> x" using ni by blast
      then show "(Value (Inputs ?m1 ! x) \<noteq> [] \<and> \<not> Calculating ?m1 ! x)
               = (Value (Inputs m ! x) \<noteq> [] \<and> \<not> Calculating m ! x)"
        by simp
    qed
    have "cascade (i # rest) m =
            Some (m', map (\<lambda>j. CalculateCmd (Value (Inputs m ! j)) (Results m) (int j))
                        (filter (\<lambda>j. Value (Inputs m ! j) \<noteq> [] \<and> \<not> Calculating m ! j) (i # rest)))"
      using True i c same by (simp add: Let_def)
    moreover have "\<forall>j<length (Calculating m). Calculating m' ! j =
                (Calculating m ! j \<or> (j \<in> set (i # rest) \<and> Value (Inputs m ! j) \<noteq> []))"
      using f True i by (auto simp: nth_list_update)
    ultimately show ?thesis using r by simp
  next
    case False
    have b: "\<forall>k\<in>set rest. k < length (Calculating m)"
      using Cons.prems by simp
    from Cons.IH [OF d b] obtain m' where
      c: "cascade rest m =
            Some (m', map (\<lambda>j. CalculateCmd (Value (Inputs m ! j)) (Results m) (int j))
                        (filter (\<lambda>j. Value (Inputs m ! j) \<noteq> [] \<and> \<not> Calculating m ! j) rest))"
      and r: "Inputs m' = Inputs m" "Results m' = Results m" "Focused m' = Focused m"
        "UndoSystem m' = UndoSystem m" "ShowCompletions m' = ShowCompletions m"
        "length (Calculating m') = length (Calculating m)"
      and f: "\<forall>j<length (Calculating m). Calculating m' ! j =
                (Calculating m ! j \<or> (j \<in> set rest \<and> Value (Inputs m ! j) \<noteq> []))"
      by blast
    have "cascade (i # rest) m = cascade rest m"
      using False i by (auto simp: Let_def)
    with c have "cascade (i # rest) m =
            Some (m', map (\<lambda>j. CalculateCmd (Value (Inputs m ! j)) (Results m) (int j))
                        (filter (\<lambda>j. Value (Inputs m ! j) \<noteq> [] \<and> \<not> Calculating m ! j) (i # rest)))"
      using False by auto
    moreover have "\<forall>j<length (Calculating m). Calculating m' ! j =
                (Calculating m ! j \<or> (j \<in> set (i # rest) \<and> Value (Inputs m ! j) \<noteq> []))"
      using f False by auto
    ultimately show ?thesis using r by simp
  qed
qed

lemma handleCalculationMessage_spec:
  assumes "0 \<le> index" and "index < int (length (Results m))"
    and "length (Results m) = length (Inputs m)"
    and "length (Calculating m) = length (Inputs m)"
  shows "\<exists>m'. handleCalculationMessage m (CalculationMsg index result) =
            Some (m', map (\<lambda>j. CalculateCmd (Value (Inputs m ! j))
                                  ((Results m)[nat index := result]) (int j))
                        (filter (\<lambda>j. Value (Inputs m ! j) \<noteq> [] \<and> \<not> Calculating m ! j)
                           [nat index + 1 ..< length (Inputs m)]))
          \<and> Inputs m' = Inputs m \<and> Results m' = (Results m)[nat index := result]
          \<and> Focused m' = Focused m \<and> UndoSystem m' = UndoSystem m
          \<and> ShowCompletions m' = ShowCompletions m
          \<and> length (Calculating m') = length (Calculating m)
          \<and> \<not> Calculating m' ! nat index
          \<and> (\<forall>j. nat index < j \<and> j < length (Inputs m) \<and> Value (Inputs m ! j) \<noteq> []
                 \<longrightarrow> Calculating m' ! j)"
proof -
  let ?m1 = "m\<lparr>Results := (Results m)[nat index := result],
               Calculating := (Calculating m)[nat index := False]\<rparr>"
  let ?is = "[nat index + 1 ..< length (Inputs m)]"
  have idx: "nat index < length (Calculating m)"
    using assms by simp
  have d: "distinct ?is" by simp
  have b: "\<forall>i\<in>set ?is. i < length (Calculating ?m1)"
    using assms by simp
  from cascade_spec [OF d b] obtain m' where
    c: "cascade ?is ?m1 =
          Some (m', map (\<lambda>j. CalculateCmd (Value (Inputs ?m1 ! j)) (Results ?m1) (int j))
                      (filter (\<lambda>j. Value (Inputs ?m1 ! j) \<noteq> [] \<and> \<not> Calculating ?m1 ! j) ?is))"
    and r: "Inputs m' = Inputs ?m1" "Results m' = Results ?m1" "Focused m' = Focused ?m1"
      "UndoSystem m' = UndoSystem ?m1" "ShowCompletions m' = ShowCompletions ?m1"
      "length (Calculating m') = length (Calculating ?m1)"
    and f: "\<forall>j<length (Calculating ?m1). Calculating m' ! j =
              (Calculating ?m1 ! j \<or> (j \<in> set ?is \<and> Value (Inputs ?m1 ! j) \<noteq> []))"
    by blast
  have same: "filter (\<lambda>j. Value (Inputs ?m1 ! j) \<noteq> [] \<and> \<not> Calculating ?m1 ! j) ?is
            = filter (\<lambda>j. Value (Inputs m ! j) \<noteq> [] \<and> \<not> Calculating m ! j) ?is"
  proof (rule filter_cong [OF refl])
    fix x
    assume "x \<in> set ?is"
    then have "nat index \<noteq> x" by simp
    then show "(Value (Inputs ?m1 ! x) \<noteq> [] \<and> \<not> Calculating ?m1 ! x)
             = (Value (Inputs m ! x) \<noteq> [] \<and> \<not> Calculating m ! x)"
      by simp
  qed
  have h: "handleCalculationMessage m (CalculationMsg index result) = cascade ?is ?m1"
    using assms idx by simp
  have off: "\<not> Calculating m' ! nat index"
    using f idx by simp
  have on: "\<forall>j. nat index < j \<and> j < length (Inputs m) \<and> Value (Inputs m ! j) \<noteq> []
                 \<longrightarrow> Calculating m' ! j"
    using f assms by simp
  show ?thesis
    using h c same r off on by simp
qed

text \<open>
  C4. When the completion for line \<open>index\<close> is accepted (the index lies within the
  sheet) and its result stored, the handler submits a command for every later line whose
  text is not empty and whose \<open>Calculating\<close> flag is not set, and for no other line: the
  commands are those of the lines \<open>j > index\<close> that pass this test, in order, each with
  the text of its line, and each such line is then flagged. Whether a line holds a
  reference plays no part.
\<close>

theorem cascade_resubmits_later_lines:
  assumes "0 \<le> index" and "index < int (length (Results m))"
    and "length (Results m) = length (Inputs m)"
    and "length (Calculating m) = length (Inputs m)"
  shows "\<exists>m'. handleCalculationMessage m (CalculationMsg index result) =
            Some (m', map (\<lambda>j. CalculateCmd (Value (Inputs m ! j))
                                  ((Results m)[nat index := result]) (int j))
                        (filter (\<lambda>j. Value (Inputs m ! j) \<noteq> [] \<and> \<not> Calculating m ! j)
                           [nat index + 1 ..< length (Inputs m)]))
          \<and> Results m' = (Results m)[nat index := result]
          \<and> (\<forall>j. nat index < j \<and> j < length (Inputs m) \<and> Value (Inputs m ! j) \<noteq> []
                 \<longrightarrow> Calculating m' ! j)"
  using handleCalculationMessage_spec [OF assms, of result] by blast

theorem cascade_resubmits_later_lines_witness:
  "map_option snd
     (handleCalculationMessage
        \<lparr>Inputs = [\<lparr>Value = ''4'', Position = 1\<rparr>, \<lparr>Value = [], Position = 0\<rparr>,
                   \<lparr>Value = ''2*3'', Position = 3\<rparr>, \<lparr>Value = ''ans+1'', Position = 5\<rparr>,
                   \<lparr>Value = ''7'', Position = 1\<rparr>],
         Results = [[], [], ''6'', [], []], Focused = 0,
         Calculating = [True, False, False, True, False],
         ShowCompletions = False, UndoSystem = Some NewUndoSystem\<rparr>
        (CalculationMsg 0 ''4''))
   = Some [CalculateCmd ''2*3'' [''4'', [], ''6'', [], []] 2,
           CalculateCmd ''7'' [''4'', [], ''6'', [], []] 4]"
proof -
  let ?m = "\<lparr>Inputs = [\<lparr>Value = ''4'', Position = 1\<rparr>, \<lparr>Value = [], Position = 0\<rparr>,
                   \<lparr>Value = ''2*3'', Position = 3\<rparr>, \<lparr>Value = ''ans+1'', Position = 5\<rparr>,
                   \<lparr>Value = ''7'', Position = 1\<rparr>],
         Results = [[], [], ''6'', [], []], Focused = 0,
         Calculating = [True, False, False, True, False],
         ShowCompletions = False, UndoSystem = Some NewUndoSystem\<rparr>"
  have a: "(0::int) \<le> 0" by simp
  have b: "0 < int (length (Results ?m))" by simp
  have c: "length (Results ?m) = length (Inputs ?m)" by simp
  have d: "length (Calculating ?m) = length (Inputs ?m)" by simp
  have u: "[Suc 0..<5] = [1, 2, 3, 4]" by (simp add: upt_rec)
  from cascade_resubmits_later_lines [OF a b c d, of "''4''"]
  show ?thesis by (auto simp: u)
qed

text \<open>
  C1, as amended. A completion carries the index of its line and the result, and no token.
  Handling a completion whose index lies within the sheet always stores its result for
  that line and clears the flag of the line, whether or not a later evaluation has been
  submitted for it; a completion whose index lies outside the sheet changes nothing.
\<close>

theorem completion_always_stored:
  assumes "length (Results m) = length (Inputs m)"
    and "length (Calculating m) = length (Inputs m)"
  shows "(0 \<le> index \<and> index < int (length (Results m)) \<longrightarrow>
           (\<exists>m' cmds. handleCalculationMessage m (CalculationMsg index result) = Some (m', cmds)
              \<and> Results m' ! nat index = result \<and> \<not> Calculating m' ! nat index))
       \<and> (\<not> (0 \<le> index \<and> index < int (length (Results m))) \<longrightarrow>
           handleCalculationMessage m (CalculationMsg index result) = Some (m, []))"
proof (intro conjI impI)
  assume r: "0 \<le> index \<and> index < int (length (Results m))"
  then have a: "0 \<le> index" and b: "index < int (length (Results m))" by simp_all
  from handleCalculationMessage_spec [OF a b assms, of result] b a
  show "\<exists>m' cmds. handleCalculationMessage m (CalculationMsg index result) = Some (m', cmds)
              \<and> Results m' ! nat index = result \<and> \<not> Calculating m' ! nat index"
    by auto
next
  assume out: "\<not> (0 \<le> index \<and> index < int (length (Results m)))"
  show "handleCalculationMessage m (CalculationMsg index result) = Some (m, [])"
    by (simp only: handleCalculationMessage.simps out if_False)
qed

theorem completion_always_stored_witness:
  "map_option (\<lambda>(m', cmds). (Results m' ! 0, Calculating m' ! 0))
     (handleCalculationMessage
        \<lparr>Inputs = [\<lparr>Value = ''10/2'', Position = 4\<rparr>], Results = [''5''], Focused = 0,
         Calculating = [False], ShowCompletions = False, UndoSystem = Some NewUndoSystem\<rparr>
        (CalculationMsg 0 ''10''))
   = Some (''10'', False)
   \<and> handleCalculationMessage
        \<lparr>Inputs = [\<lparr>Value = ''10/2'', Position = 4\<rparr>], Results = [''5''], Focused = 0,
         Calculating = [False], ShowCompletions = False, UndoSystem = Some NewUndoSystem\<rparr>
        (CalculationMsg 1 ''10'')
   = Some (\<lparr>Inputs = [\<lparr>Value = ''10/2'', Position = 4\<rparr>], Results = [''5''], Focused = 0,
         Calculating = [False], ShowCompletions = False, UndoSystem = Some NewUndoSystem\<rparr>, [])"
proof -
  let ?m = "\<lparr>Inputs = [\<lparr>Value = ''10/2'', Position = 4\<rparr>], Results = [''5''], Focused = 0,
         Calculating = [False], ShowCompletions = False, UndoSystem = Some NewUndoSystem\<rparr>"
  have a: "length (Results ?m) = length (Inputs ?m)" by simp
  have b: "length (Calculating ?m) = length (Inputs ?m)" by simp
  have in_range: "(0::int) \<le> 0 \<and> 0 < int (length (Results ?m))" by simp
  have out_of_range: "\<not> ((0::int) \<le> 1 \<and> 1 < int (length (Results ?m)))" by simp
  from completion_always_stored [OF a b, of 0 "''10''"] in_range
  obtain m' cmds where h: "handleCalculationMessage ?m (CalculationMsg 0 ''10'') = Some (m', cmds)"
    "Results m' ! nat 0 = ''10''" "\<not> Calculating m' ! nat 0"
    by blast
  from completion_always_stored [OF a b, of 1 "''10''"] out_of_range
  have o: "handleCalculationMessage ?m (CalculationMsg 1 ''10'') = Some (?m, [])"
    by blast
  have "map_option (\<lambda>(m', cmds). (Results m' ! 0, Calculating m' ! 0))
     (handleCalculationMessage ?m (CalculationMsg 0 ''10'')) = Some (''10'', False)"
    unfolding h(1) using h(2,3) by simp
  from this o show ?thesis by (rule conjI)
qed

text \<open>
  C1 as stated fails. \<open>inf\<close> is typed into the only line and submitted; the sheet is
  cleared, which resets the flag of the line; \<open>0/0\<close> is typed and submitted for the same
  index. The completion of the second command arrives first and its result is stored.
  When the completion of the first, superseded command arrives, its result replaces the
  one stored: the line reads \<open>0/0\<close> and shows the result of \<open>inf\<close>.
\<close>

theorem stale_completion_overwrites:
  "(case UpdateTextInput InitialModel \<lparr>Value = ''inf'', Position = 3\<rparr> of
      Some (m1, [cmd1]) \<Rightarrow>
        (case UpdateTextInput (clearAll m1) \<lparr>Value = ''0/0'', Position = 3\<rparr> of
           Some (m3, [cmd2]) \<Rightarrow>
             (case (runCmd \<lparr>calculate_expression = Map.empty, basicFunctions = [],
                      advancedFunctions = [], prettyPrint = id,
         unicodeLowerCase = id\<rparr> cmd1,
                    runCmd \<lparr>calculate_expression = Map.empty, basicFunctions = [],
                      advancedFunctions = [], prettyPrint = id,
         unicodeLowerCase = id\<rparr> cmd2) of
                (Some msg1, Some msg2) \<Rightarrow>
                  (case handleCalculationMessage m3 msg2 of
                     Some (m4, cmds4) \<Rightarrow>
                       (case handleCalculationMessage m4 msg1 of
                          Some (m5, cmds5) \<Rightarrow>
                            cmd1 = CalculateCmd ''inf'' [[]] 0 \<and> cmd2 = CalculateCmd ''0/0'' [[]] 0
                            \<and> msg1 = CalculationMsg 0 voidStares \<and> msg2 = CalculationMsg 0 shrug
                            \<and> map Value (Inputs m5) = [''0/0'']
                            \<and> Results m4 = [shrug] \<and> Results m5 = [voidStares]
                        | None \<Rightarrow> False)
                   | None \<Rightarrow> False)
              | _ \<Rightarrow> False)
         | _ \<Rightarrow> False)
    | _ \<Rightarrow> False)"
  by code_simp

section \<open>Undo and redo\<close>

text \<open>
  C5. With an empty undo stack (or no undo system) \<open>undo\<close> returns false and the model
  as it was; \<open>redo\<close> does the same with an empty redo stack. The result type has no
  other outcome: neither function can panic.
\<close>

theorem undo_redo_empty_stack:
  "(\<not> canUndo m \<longrightarrow> undo m = (False, m)) \<and> (\<not> canRedo m \<longrightarrow> redo m = (False, m))"
  by (auto simp: canUndo_def canRedo_def undo_def redo_def split: option.splits)

theorem undo_redo_empty_stack_witness:
  "\<not> canUndo InitialModel \<and> undo InitialModel = (False, InitialModel)
   \<and> \<not> canRedo InitialModel \<and> redo InitialModel = (False, InitialModel)"
proof -
  have "\<not> canUndo InitialModel" and "\<not> canRedo InitialModel"
    by (simp_all add: canUndo_def canRedo_def InitialModel_def NewUndoSystem_def)
  with undo_redo_empty_stack [of InitialModel] show ?thesis by simp
qed

section \<open>Well-formed sheets are kept\<close>

lemma RuneCount_le: "RuneCount s \<le> length s"
  by (simp add: RuneCount_def)

lemma SetCursor_Value [simp]: "Value (SetCursor p ti) = Value ti"
  by (simp add: SetCursor_def)

lemma SetCursor_cursor_ok [simp]: "cursor_ok (SetCursor p ti)"
  unfolding cursor_ok_def SetCursor_def by simp

lemma SetCursor_within:
  "0 \<le> p \<Longrightarrow> p \<le> int (RuneCount (Value ti)) \<Longrightarrow> Position (SetCursor p ti) = nat p"
  by (simp add: SetCursor_def)

lemma SetValue_New [simp]:
  "SetValue v textinput_New = \<lparr>Value = v, Position = RuneCount v\<rparr>"
  by (simp add: SetValue_def textinput_New_def SetCursor_def)

lemma restoreInput_Value [simp]: "Value (restoreInput s i v) = v"
  by (simp add: restoreInput_def Let_def)

lemma restoreInput_cursor_ok [simp]: "cursor_ok (restoreInput s i v)"
  by (simp add: restoreInput_def Let_def) (simp add: cursor_ok_def)

lemma restoreInput_focused:
  "int i = Focused_s s \<Longrightarrow> 0 \<le> CursorPos s \<Longrightarrow> CursorPos s \<le> int (RuneCount v) \<Longrightarrow>
   Position (restoreInput s i v) = nat (CursorPos s)"
  using RuneCount_le [of v] by (simp add: restoreInput_def Let_def SetCursor_within)

lemma restoreState_Inputs:
  "Inputs (restoreState m s) =
     map (\<lambda>(i, v). restoreInput s i v) (enumerate 0 (InputValues s))"
  by (simp add: restoreState_def Let_def)

lemma restoreState_fields [simp]:
  "Results (restoreState m s) = Results_s s"
  "Calculating (restoreState m s) = replicate (length (InputValues s)) False"
  "UndoSystem (restoreState m s) = UndoSystem m"
  "ShowCompletions (restoreState m s) = ShowCompletions m"
  by (simp_all add: restoreState_def Let_def)

lemma restoreState_length [simp]:
  "length (Inputs (restoreState m s)) = length (InputValues s)"
  by (simp add: restoreState_Inputs)

lemma restoreState_nth:
  "i < length (InputValues s) \<Longrightarrow>
   Inputs (restoreState m s) ! i = restoreInput s i (InputValues s ! i)"
  by (simp add: restoreState_Inputs nth_enumerate_eq)

lemma restoreState_values [simp]: "map Value (Inputs (restoreState m s)) = InputValues s"
  by (rule nth_equalityI) (simp_all add: restoreState_nth)

lemma restoreState_Focused:
  "0 \<le> Focused_s s \<Longrightarrow> Focused_s s < int (length (InputValues s)) \<Longrightarrow>
   Focused (restoreState m s) = Focused_s s"
  by (simp add: restoreState_def Let_def)

lemma restoreState_sheet_ok:
  assumes "snapshot_ok s"
  shows "sheet_ok (restoreState m s)"
proof -
  have "Inputs (restoreState m s) \<noteq> []"
    using assms restoreState_length [of m s] unfolding snapshot_ok_def
    by (metis length_0_conv)
  moreover have "list_all cursor_ok (Inputs (restoreState m s))"
    by (auto simp: list_all_iff restoreState_Inputs)
  ultimately show ?thesis
    using assms by (simp add: snapshot_ok_def sheet_ok_def restoreState_Focused)
qed

lemma createSnapshot_ok: "sheet_ok m \<Longrightarrow> snapshot_ok (createSnapshot m)"
  by (auto simp: snapshot_ok_def sheet_ok_def createSnapshot_def list_all_length cursor_ok_def)

lemma restoreState_snapshot:
  assumes "snapshot_ok s"
  shows "createSnapshot (restoreState m s) = s"
proof -
  have f: "Focused (restoreState m s) = Focused_s s"
    using assms by (simp add: snapshot_ok_def restoreState_Focused)
  have n: "nat (Focused_s s) < length (InputValues s)"
    using assms by (simp add: snapshot_ok_def nat_less_iff)
  have "Position (Inputs (restoreState m s) ! nat (Focused_s s)) = nat (CursorPos s)"
    using assms n by (simp only: restoreState_nth) (simp add: restoreInput_focused snapshot_ok_def)
  then show ?thesis
    using assms f by (simp add: createSnapshot_def snapshot_ok_def)
qed

lemma pushLimited_length: "length st \<le> 50 \<Longrightarrow> length (pushLimited st s 50) \<le> 50"
  by (simp add: pushLimited_def Let_def)

lemma pushLimited_all:
  "list_all P st \<Longrightarrow> P s \<Longrightarrow> list_all P (pushLimited st s limit)"
  by (cases st) (auto simp: pushLimited_def Let_def)

lemma pushLimited_last: "1 \<le> limit \<Longrightarrow> pushLimited st s limit \<noteq> [] \<and> last (pushLimited st s limit) = s"
  by (cases st) (auto simp: pushLimited_def Let_def)

lemma pushLimited_eq:
  "pushLimited st s 50 = (if length st < 50 then st @ [s] else tl (st @ [s]))"
  by (auto simp: pushLimited_def Let_def)

lemma saveState_fields [simp]:
  "Inputs (saveState m) = Inputs m" "Results (saveState m) = Results m"
  "Focused (saveState m) = Focused m" "Calculating (saveState m) = Calculating m"
  "ShowCompletions (saveState m) = ShowCompletions m"
  by (simp_all add: saveState_def split: option.splits)

lemma saveState_sheet_ok [simp]: "sheet_ok (saveState m) = sheet_ok m"
  by (simp add: sheet_ok_def)

lemma saveState_UndoSystem:
  "UndoSystem m = Some us \<Longrightarrow>
   UndoSystem (saveState m) =
     Some (us\<lparr>undoStack := pushLimited (undoStack us) (createSnapshot m) (maxSize us),
              redoStack := []\<rparr>)"
  by (simp add: saveState_def)

lemma saveState_undo_ok: "sheet_ok m \<Longrightarrow> undo_ok m \<Longrightarrow> undo_ok (saveState m)"
  by (auto simp: undo_ok_def saveState_def pushLimited_length pushLimited_all createSnapshot_ok
      split: option.splits)

lemma saveState_no_redo: "\<not> canRedo (saveState m)"
  by (simp add: canRedo_def saveState_def split: option.splits)

lemma undo_preserves:
  assumes "sheet_ok m" and "undo_ok m"
  shows "sheet_ok (snd (undo m)) \<and> undo_ok (snd (undo m))"
proof (cases "canUndo m")
  case False
  then have "undo m = (False, m)"
    by (auto simp: canUndo_def undo_def split: option.splits)
  with assms show ?thesis by simp
next
  case True
  then obtain us where us: "UndoSystem m = Some us" "undoStack us \<noteq> []"
    by (auto simp: canUndo_def split: option.splits)
  from assms(2) us have ok: "maxSize us = 50" "length (undoStack us) \<le> 50"
    "length (redoStack us) \<le> 50" "list_all snapshot_ok (undoStack us)"
    "list_all snapshot_ok (redoStack us)"
    by (simp_all add: undo_ok_def)
  have l: "snapshot_ok (last (undoStack us))"
    using ok(4) us(2) by (simp add: list_all_iff)
  have b: "list_all snapshot_ok (butlast (undoStack us))"
    using ok(4) by (auto simp: list_all_iff dest: in_set_butlastD)
  have p: "list_all snapshot_ok (pushLimited (redoStack us) (createSnapshot m) 50)"
    using ok(5) assms(1) by (simp add: pushLimited_all createSnapshot_ok)
  have "snd (undo m) =
        restoreState (m\<lparr>UndoSystem := Some (us\<lparr>redoStack :=
            pushLimited (redoStack us) (createSnapshot m) (maxSize us),
            undoStack := butlast (undoStack us)\<rparr>)\<rparr>) (last (undoStack us))"
    using us by (simp add: undo_def Let_def)
  then show ?thesis
    using l b p ok by (simp add: restoreState_sheet_ok undo_ok_def pushLimited_length)
qed

lemma redo_preserves:
  assumes "sheet_ok m" and "undo_ok m"
  shows "sheet_ok (snd (redo m)) \<and> undo_ok (snd (redo m))"
proof (cases "canRedo m")
  case False
  then have "redo m = (False, m)"
    by (auto simp: canRedo_def redo_def split: option.splits)
  with assms show ?thesis by simp
next
  case True
  then obtain us where us: "UndoSystem m = Some us" "redoStack us \<noteq> []"
    by (auto simp: canRedo_def split: option.splits)
  from assms(2) us have ok: "maxSize us = 50" "length (undoStack us) \<le> 50"
    "length (redoStack us) \<le> 50" "list_all snapshot_ok (undoStack us)"
    "list_all snapshot_ok (redoStack us)"
    by (simp_all add: undo_ok_def)
  have l: "snapshot_ok (last (redoStack us))"
    using ok(5) us(2) by (simp add: list_all_iff)
  have b: "list_all snapshot_ok (butlast (redoStack us))"
    using ok(5) by (auto simp: list_all_iff dest: in_set_butlastD)
  have p: "list_all snapshot_ok (pushLimited (undoStack us) (createSnapshot m) 50)"
    using ok(4) assms(1) by (simp add: pushLimited_all createSnapshot_ok)
  have "snd (redo m) =
        restoreState (m\<lparr>UndoSystem := Some (us\<lparr>undoStack :=
            pushLimited (undoStack us) (createSnapshot m) (maxSize us),
            redoStack := butlast (redoStack us)\<rparr>)\<rparr>) (last (redoStack us))"
    using us by (simp add: redo_def Let_def)
  then show ?thesis
    using l b p ok by (simp add: restoreState_sheet_ok undo_ok_def pushLimited_length)
qed

lemma undo_redo_snapshot:
  assumes "sheet_ok m" and "undo_ok m" and "canUndo m"
  shows "fst (undo m) \<and> fst (redo (snd (undo m)))
         \<and> createSnapshot (snd (redo (snd (undo m)))) = createSnapshot m"
proof -
  from assms(3) obtain us where us: "UndoSystem m = Some us" "undoStack us \<noteq> []"
    by (auto simp: canUndo_def split: option.splits)
  from assms(2) us have ok: "maxSize us = 50" by (simp add: undo_ok_def)
  let ?cur = "createSnapshot m"
  let ?us1 = "us\<lparr>redoStack := pushLimited (redoStack us) ?cur (maxSize us),
                  undoStack := butlast (undoStack us)\<rparr>"
  let ?m1 = "restoreState (m\<lparr>UndoSystem := Some ?us1\<rparr>) (last (undoStack us))"
  have u: "undo m = (True, ?m1)"
    using us by (simp add: undo_def Let_def)
  have top: "pushLimited (redoStack us) ?cur (maxSize us) \<noteq> []
             \<and> last (pushLimited (redoStack us) ?cur (maxSize us)) = ?cur"
    using ok by (simp add: pushLimited_last)
  have us1: "UndoSystem ?m1 = Some ?us1" by simp
  let ?us2 = "?us1\<lparr>undoStack := pushLimited (undoStack ?us1) (createSnapshot ?m1) (maxSize ?us1),
                    redoStack := butlast (redoStack ?us1)\<rparr>"
  have r: "redo ?m1 = (True, restoreState (?m1\<lparr>UndoSystem := Some ?us2\<rparr>) ?cur)"
    using top by (simp add: redo_def Let_def)
  have "snapshot_ok ?cur"
    using assms(1) by (rule createSnapshot_ok)
  then have "createSnapshot (restoreState (?m1\<lparr>UndoSystem := Some ?us2\<rparr>) ?cur) = ?cur"
    by (rule restoreState_snapshot)
  with u r show ?thesis by simp
qed

lemma list_all_update: "list_all P xs \<Longrightarrow> P x \<Longrightarrow> list_all P (xs[i := x])"
  by (auto simp: list_all_iff dest!: set_update_subset_insert [THEN subsetD])

lemma UpdateTextInput_ok:
  assumes "sheet_ok m" and "cursor_ok ti"
  shows "\<exists>m' cmds. UpdateTextInput m ti = Some (m', cmds) \<and> sheet_ok m'
           \<and> UndoSystem m' = UndoSystem m"
proof -
  have f: "nat (Focused m) < length (Inputs m)" "nat (Focused m) < length (Calculating m)"
    "nat (Focused m) < length (Results m)"
    using assms(1) by (simp_all add: sheet_ok_def nat_less_iff)
  have r: "0 \<le> Focused m \<and> Focused m < int (length (Inputs m))"
    using assms(1) by (simp add: sheet_ok_def)
  have c: "list_all cursor_ok ((Inputs m)[nat (Focused m) := ti])"
    using assms by (simp add: sheet_ok_def list_all_update)
  show ?thesis
    using assms(1) f r c
    by (auto simp: UpdateTextInput_def Let_def sheet_ok_def)
qed

lemma insertSymbol_ok:
  assumes "sheet_ok m"
  shows "\<exists>m' cmds. insertSymbol m symbol = Some (m', cmds) \<and> sheet_ok m'
           \<and> UndoSystem m' = UndoSystem (saveState m)"
proof -
  have f: "nat (Focused m) < length (Inputs m)" "nat (Focused m) < length (Calculating m)"
    using assms(1) by (simp_all add: sheet_ok_def nat_less_iff)
  have r: "0 \<le> Focused m \<and> Focused m < int (length (Inputs m))"
    using assms(1) by (simp add: sheet_ok_def)
  have "cursor_ok (Inputs m ! nat (Focused m))"
    using assms f by (simp add: sheet_ok_def list_all_length)
  then have p: "Position (Inputs m ! nat (Focused m)) \<le> length (Value (Inputs m ! nat (Focused m)))"
    using RuneCount_le [of "Value (Inputs m ! nat (Focused m))"] by (simp add: cursor_ok_def)
  have c: "list_all cursor_ok ((Inputs m)[nat (Focused m) := SetCursor q ti])" for q ti
    using assms by (simp add: sheet_ok_def list_all_update)
  show ?thesis
    using assms(1) f r p c
    by (auto simp: insertSymbol_def Let_def sheet_ok_def)
qed

lemma list_all_take_drop:
  "list_all P xs \<Longrightarrow> list_all P (take i xs @ drop j xs)"
  by (auto simp: list_all_iff dest: in_set_takeD in_set_dropD)

lemma deleteLine_ok:
  assumes "sheet_ok m"
  shows "\<exists>m'. deleteLine m = Some m' \<and> sheet_ok m' \<and> UndoSystem m' = UndoSystem (saveState m)"
proof -
  have f: "nat (Focused m) < length (Inputs m)"
    using assms(1) by (simp add: sheet_ok_def nat_less_iff)
  have r: "0 \<le> Focused m" "Focused m < int (length (Inputs m))"
    "length (Results m) = length (Inputs m)" "length (Calculating m) = length (Inputs m)"
    "list_all cursor_ok (Inputs m)"
    using assms(1) by (simp_all add: sheet_ok_def)
  show ?thesis
  proof (cases "1 < length (Inputs m)")
    case True
    have c: "list_all cursor_ok (removeAt (nat (Focused m)) (Inputs m))"
      using r(5) unfolding removeAt_def by (rule list_all_take_drop)
    have n: "length (removeAt (nat (Focused m)) xs) = length xs - 1"
      if "length xs = length (Inputs m)" for xs :: "'b list"
      using that f by (simp add: removeAt_def)
    have ne: "removeAt (nat (Focused m)) (Inputs m) \<noteq> []"
      using n [of "Inputs m"] True by (metis length_0_conv less_numeral_extra(3) zero_less_diff refl)
    show ?thesis
      using True f r c ne n [of "Inputs m"] n [of "Results m"] n [of "Calculating m"]
      by (simp add: deleteLine_def Let_def sheet_ok_def)
  next
    case False
    have c: "list_all cursor_ok ((Inputs m)[nat (Focused m) := SetCursor q ti])" for q ti
      using r(5) by (simp add: list_all_update)
    show ?thesis
      using False f r c
      by (simp add: deleteLine_def Let_def sheet_ok_def)
  qed
qed

lemma clearAll_ok:
  "sheet_ok (clearAll m) \<and> UndoSystem (clearAll m) = UndoSystem (saveState m)"
  by (simp add: clearAll_def Let_def sheet_ok_def cursor_ok_def textinput_New_def)

lemma createNewLine_ok:
  assumes "sheet_ok m"
  shows "\<exists>m'. createNewLine m = Some m' \<and> sheet_ok m' \<and> UndoSystem m' = UndoSystem (saveState m)"
proof -
  have r: "0 \<le> Focused m" "Focused m < int (length (Inputs m))"
    "length (Results m) = length (Inputs m)" "length (Calculating m) = length (Inputs m)"
    "list_all cursor_ok (Inputs m)"
    using assms(1) by (simp_all add: sheet_ok_def)
  have c: "list_all cursor_ok (insertAt i textinput_New (Inputs m))" for i
    using r(5) by (auto simp: insertAt_def list_all_iff cursor_ok_def textinput_New_def
        dest: in_set_takeD in_set_dropD)
  have n: "length (insertAt (nat (Focused m + 1)) x xs) = length xs + 1"
    if "length xs = length (Inputs m)" for xs :: "'b list" and x
    using that r(1,2) by (simp add: insertAt_def)
  have ne: "insertAt i x xs \<noteq> []" for i and x :: 'b and xs
    by (simp add: insertAt_def)
  show ?thesis
    using r c ne n [of "Inputs m"] n [of "Results m"] n [of "Calculating m"]
    by (simp add: createNewLine_def Let_def sheet_ok_def)
qed

lemma lastResult_Some: "i < int (length results) \<Longrightarrow> lastResult i results \<noteq> None"
proof (induction i results rule: lastResult.induct)
  case (1 i results)
  show ?case
  proof (cases "0 \<le> i")
    case True
    with 1 show ?thesis
      by (subst lastResult.simps) (auto simp: nat_less_iff)
  next
    case False
    then show ?thesis
      by (subst lastResult.simps) simp
  qed
qed

lemma CalculateExpression_Some:
  assumes "currentIndex \<le> int (length results)"
  shows "\<exists>r. CalculateExpression eng expr results currentIndex = Some r"
proof -
  have "lastResult (currentIndex - 1) results \<noteq> None"
    using assms by (intro lastResult_Some) simp
  then have "\<exists>e. bareAns p results currentIndex = Some e" for p
    by (auto simp: bareAns_def split: option.splits)
  then have "\<exists>e. resolveReferences expr results currentIndex = Some e"
    by (simp add: resolveReferences_def)
  then show ?thesis
    by (auto simp: CalculateExpression_def Let_def)
qed

lemma focus_moves_ok:
  assumes "sheet_ok m"
  shows "\<exists>m'. focusPreviousLine m = Some m' \<and> sheet_ok m' \<and> UndoSystem m' = UndoSystem m"
    and "\<exists>m'. focusNextLine m = Some m' \<and> sheet_ok m' \<and> UndoSystem m' = UndoSystem m"
    and "\<exists>m'. focusFirstLine m = Some m' \<and> sheet_ok m' \<and> UndoSystem m' = UndoSystem m"
    and "\<exists>m'. focusLastLine m = Some m' \<and> sheet_ok m' \<and> UndoSystem m' = UndoSystem m"
    and "\<exists>m'. goToLine m n = Some m' \<and> sheet_ok m' \<and> UndoSystem m' = UndoSystem m"
  using assms
  by (auto simp: sheet_ok_def focusPreviousLine_def focusNextLine_def focusFirstLine_def
      focusLastLine_def goToLine_def Let_def split: option.splits)

lemma clickInput_ok:
  assumes "sheet_ok m"
  shows "\<exists>m'. clickInput m clickedLine x = Some m' \<and> sheet_ok m' \<and> UndoSystem m' = UndoSystem m"
proof -
  have c: "list_all cursor_ok ((Inputs m)[i := SetCursor q ti])" for i q ti
    using assms by (simp add: sheet_ok_def list_all_update)
  show ?thesis
    using assms c by (simp add: clickInput_def Let_def sheet_ok_def)
qed

lemma triggerCalculationIfNeeded_ok:
  assumes "sheet_ok m"
  shows "\<exists>m' cmds. triggerCalculationIfNeeded m = Some (m', cmds) \<and> sheet_ok m'
           \<and> UndoSystem m' = UndoSystem m"
proof -
  have f: "nat (Focused m) < length (Inputs m)" "nat (Focused m) < length (Calculating m)"
    "nat (Focused m) < length (Results m)"
    using assms(1) by (simp_all add: sheet_ok_def nat_less_iff)
  have r: "0 \<le> Focused m \<and> Focused m < int (length (Inputs m))"
    using assms(1) by (simp add: sheet_ok_def)
  show ?thesis
    using assms(1) f r
    by (auto simp: triggerCalculationIfNeeded_def Let_def sheet_ok_def)
qed

lemma insertCompletion_ok:
  assumes "sheet_ok m"
  shows "\<exists>m'. insertCompletion m completion = Some m' \<and> sheet_ok m'
           \<and> UndoSystem m' = UndoSystem (saveState m)"
proof -
  have f: "nat (Focused m) < length (Inputs m)"
    using assms(1) by (simp_all add: sheet_ok_def nat_less_iff)
  have r: "0 \<le> Focused m \<and> Focused m < int (length (Inputs m))"
    using assms(1) by (simp add: sheet_ok_def)
  have "cursor_ok (Inputs m ! nat (Focused m))"
    using assms f by (simp add: sheet_ok_def list_all_length)
  then have p: "Position (Inputs m ! nat (Focused m)) \<le> length (Value (Inputs m ! nat (Focused m)))"
    using RuneCount_le [of "Value (Inputs m ! nat (Focused m))"] by (simp add: cursor_ok_def)
  have c: "list_all cursor_ok ((Inputs m)[nat (Focused m) := SetCursor q ti])" for q ti
    using assms by (simp add: sheet_ok_def list_all_update)
  show ?thesis
    using assms(1) f r p c
    by (auto simp: insertCompletion_def Let_def sheet_ok_def)
qed

lemma clickResult_ok:
  assumes "sheet_ok m"
  shows "\<exists>m' cmds. clickResult m clickedLine = Some (m', cmds) \<and> sheet_ok m'
           \<and> UndoSystem m' =
               (if 0 \<le> clickedLine \<and> clickedLine < int (length (Results m))
                   \<and> Results m ! nat clickedLine \<noteq> []
                then UndoSystem (saveState m) else UndoSystem m)"
  using insertSymbol_ok [OF assms, of "ansPattern clickedLine"] assms
  by (auto simp: clickResult_def)

lemma addLines_ok:
  assumes "length (Results m) = length (Inputs m)"
    and "length (Calculating m) = length (Inputs m)" and "list_all cursor_ok (Inputs m)"
  shows "\<exists>m'. addLines eng ls m = Some m' \<and> length (Results m') = length (Inputs m')
           \<and> length (Calculating m') = length (Inputs m') \<and> list_all cursor_ok (Inputs m')
           \<and> length (Inputs m) \<le> length (Inputs m')
           \<and> Focused m' = Focused m \<and> UndoSystem m' = UndoSystem m"
  using assms
proof (induction ls arbitrary: m)
  case Nil
  then show ?case by simp
next
  case (Cons line rest)
  show ?case
  proof (cases "TrimSpace line = []")
    case True
    with Cons.IH [OF Cons.prems] show ?thesis by simp
  next
    case False
    let ?ti = "SetCursor (int (length (TrimSpace line))) (SetValue (TrimSpace line) textinput_New)"
    let ?m1 = "m\<lparr>Inputs := Inputs m @ [?ti], Results := Results m @ [[]],
                 Calculating := Calculating m @ [False]\<rparr>"
    from CalculateExpression_Some [of "int (length (Results ?m1)) - 1" "Results ?m1" eng
        "TrimSpace line"]
    obtain r where r: "CalculateExpression eng (TrimSpace line) (Results ?m1)
        (int (length (Results ?m1)) - 1) = Some r"
      by auto
    let ?m2 = "?m1\<lparr>Results := (Results ?m1)[nat (int (length (Results ?m1)) - 1) := r]\<rparr>"
    have a: "length (Results ?m2) = length (Inputs ?m2)"
      "length (Calculating ?m2) = length (Inputs ?m2)" "list_all cursor_ok (Inputs ?m2)"
      using Cons.prems by simp_all
    from Cons.IH [OF a] obtain m' where
      m': "addLines eng rest ?m2 = Some m'" "length (Results m') = length (Inputs m')"
        "length (Calculating m') = length (Inputs m')" "list_all cursor_ok (Inputs m')"
        "length (Inputs ?m2) \<le> length (Inputs m')"
        "Focused m' = Focused ?m2" "UndoSystem m' = UndoSystem ?m2"
      by blast
    have "addLines eng (line # rest) m = addLines eng rest ?m2"
      using False r by (simp add: Let_def)
    with m' show ?thesis by simp
  qed
qed

lemma addMultipleInputs_ok:
  assumes "sheet_ok m"
  shows "\<exists>m'. addMultipleInputs eng m content = Some m' \<and> sheet_ok m'
           \<and> UndoSystem m' = (if content = [] then UndoSystem m else UndoSystem (saveState m))"
proof (cases "content = []")
  case True
  with assms show ?thesis by (simp add: addMultipleInputs_def)
next
  case False
  have a: "length (Results (saveState m)) = length (Inputs (saveState m))"
    "length (Calculating (saveState m)) = length (Inputs (saveState m))"
    "list_all cursor_ok (Inputs (saveState m))"
    using assms by (simp_all add: sheet_ok_def)
  from addLines_ok [OF a, of eng "Split (TrimSpace content) (CHR 0x0A)"] obtain m1 where
    m1: "addLines eng (Split (TrimSpace content) (CHR 0x0A)) (saveState m) = Some m1"
      "length (Results m1) = length (Inputs m1)"
      "length (Calculating m1) = length (Inputs m1)" "list_all cursor_ok (Inputs m1)"
      "length (Inputs (saveState m)) \<le> length (Inputs m1)"
      "UndoSystem m1 = UndoSystem (saveState m)"
    by blast
  have ne: "Inputs m1 \<noteq> []"
    using m1(5) assms by (auto simp: sheet_ok_def)
  let ?f = "length (Inputs m1) - 1"
  let ?m2 = "m1\<lparr>Focused := int ?f,
      Inputs := (Inputs m1)[?f := SetCursor (int (length (Value (Inputs m1 ! ?f)))) (Inputs m1 ! ?f)]\<rparr>"
  have e: "addMultipleInputs eng m content = Some ?m2"
    using False m1(1) ne by (simp add: addMultipleInputs_def Let_def)
  have "sheet_ok ?m2"
    using m1 ne by (simp add: sheet_ok_def list_all_update)
  with e m1(6) False show ?thesis by simp
qed

lemma handlePasteMessage_ok:
  assumes "sheet_ok m"
  shows "\<exists>m' cmds. handlePasteMessage eng m content = Some (m', cmds) \<and> sheet_ok m'
           \<and> (UndoSystem m' = UndoSystem m \<or> UndoSystem m' = UndoSystem (saveState m))"
proof (cases "CHR 0x0A \<in> set content")
  case True
  then have "content \<noteq> []" by auto
  with True addMultipleInputs_ok [OF assms, of eng content] show ?thesis
    by (auto simp: handlePasteMessage_def)
next
  case False
  have f: "nat (Focused m) < length (Inputs m)" "nat (Focused m) < length (Calculating m)"
    using assms(1) by (simp_all add: sheet_ok_def nat_less_iff)
  have r: "0 \<le> Focused m \<and> Focused m < int (length (Inputs m))"
    using assms(1) by (simp add: sheet_ok_def)
  have "cursor_ok (Inputs m ! nat (Focused m))"
    using assms f by (simp add: sheet_ok_def list_all_length)
  then have p: "Position (Inputs m ! nat (Focused m)) \<le> length (Value (Inputs m ! nat (Focused m)))"
    using RuneCount_le [of "Value (Inputs m ! nat (Focused m))"] by (simp add: cursor_ok_def)
  have c: "list_all cursor_ok ((Inputs m)[nat (Focused m) := SetCursor q ti])" for q ti
    using assms by (simp add: sheet_ok_def list_all_update)
  show ?thesis
    using False assms(1) f r p c
    by (auto simp: handlePasteMessage_def Let_def sheet_ok_def)
qed

lemma handleCalculationMessage_ok:
  assumes "sheet_ok m"
  shows "\<exists>m' cmds. handleCalculationMessage m msg = Some (m', cmds) \<and> sheet_ok m'
           \<and> UndoSystem m' = UndoSystem m"
proof (cases msg)
  case (CalculationMsg index result)
  have r: "length (Results m) = length (Inputs m)" "length (Calculating m) = length (Inputs m)"
    using assms by (simp_all add: sheet_ok_def)
  show ?thesis
  proof (cases "0 \<le> index \<and> index < int (length (Results m))")
    case True
    then have a: "0 \<le> index" and b: "index < int (length (Results m))" by simp_all
    from handleCalculationMessage_spec [OF a b r, of result] obtain m' cmds where
      "handleCalculationMessage m (CalculationMsg index result) = Some (m', cmds)"
      "Inputs m' = Inputs m" "Results m' = (Results m)[nat index := result]"
      "Focused m' = Focused m" "UndoSystem m' = UndoSystem m"
      "length (Calculating m') = length (Calculating m)"
      by blast
    with assms CalculationMsg show ?thesis
      by (simp add: sheet_ok_def)
  next
    case False
    have "handleCalculationMessage m (CalculationMsg index result) = Some (m, [])"
      by (simp only: handleCalculationMessage.simps False if_False)
    with assms CalculationMsg show ?thesis by simp
  qed
qed

lemma undo_ok_saved:
  "sheet_ok m \<Longrightarrow> undo_ok m \<Longrightarrow> UndoSystem m' = UndoSystem (saveState m) \<Longrightarrow> undo_ok m'"
  using saveState_undo_ok [of m] by (simp add: undo_ok_def)

lemma undo_ok_same: "undo_ok m \<Longrightarrow> UndoSystem m' = UndoSystem m \<Longrightarrow> undo_ok m'"
  by (simp add: undo_ok_def)

lemma undo_ok_either:
  assumes "sheet_ok m" and "undo_ok m"
    and "UndoSystem m' = UndoSystem m \<or> UndoSystem m' = UndoSystem (saveState m)"
  shows "undo_ok m'"
  using assms undo_ok_same [of m m'] undo_ok_saved [of m m'] by blast

lemma step_ok:
  assumes "sheet_ok m" and "undo_ok m"
  shows "\<exists>m'. step eng a m = Some m' \<and> sheet_ok m' \<and> undo_ok m'"
proof (cases a)
  case (TextEdit v p)
  have "cursor_ok \<lparr>Value = v, Position = min p (RuneCount v)\<rparr>"
    by (simp add: cursor_ok_def)
  from UpdateTextInput_ok [OF assms(1) this] obtain m' cmds where
    r: "UpdateTextInput m \<lparr>Value = v, Position = min p (RuneCount v)\<rparr> = Some (m', cmds)"
      "sheet_ok m'" "UndoSystem m' = UndoSystem m"
    by blast
  from undo_ok_same [OF assms(2) r(3)] r TextEdit show ?thesis by simp
next
  case (InsertSymbol s)
  from insertSymbol_ok [OF assms(1), of s] obtain m' cmds where
    r: "insertSymbol m s = Some (m', cmds)" "sheet_ok m'"
      "UndoSystem m' = UndoSystem (saveState m)"
    by blast
  from undo_ok_saved [OF assms r(3)] r InsertSymbol show ?thesis by simp
next
  case (Complete s)
  from insertCompletion_ok [OF assms(1), of s] obtain m1 where
    r: "insertCompletion m s = Some m1" "sheet_ok m1" "UndoSystem m1 = UndoSystem (saveState m)"
    by blast
  from triggerCalculationIfNeeded_ok [OF r(2)] obtain m' cmds where
    t: "triggerCalculationIfNeeded m1 = Some (m', cmds)" "sheet_ok m'"
      "UndoSystem m' = UndoSystem m1"
    by blast
  from t(3) r(3) have "UndoSystem m' = UndoSystem (saveState m)" by simp
  from undo_ok_saved [OF assms this] r t Complete show ?thesis by simp
next
  case DeleteLine
  from deleteLine_ok [OF assms(1)] obtain m' where
    r: "deleteLine m = Some m'" "sheet_ok m'" "UndoSystem m' = UndoSystem (saveState m)"
    by blast
  from undo_ok_saved [OF assms r(3)] r DeleteLine show ?thesis by simp
next
  case ClearAll
  from clearAll_ok [of m] have r: "sheet_ok (clearAll m)"
    "UndoSystem (clearAll m) = UndoSystem (saveState m)" by simp_all
  from undo_ok_saved [OF assms r(2)] r ClearAll show ?thesis by simp
next
  case NewLine
  from createNewLine_ok [OF assms(1)] obtain m' where
    r: "createNewLine m = Some m'" "sheet_ok m'" "UndoSystem m' = UndoSystem (saveState m)"
    by blast
  from undo_ok_saved [OF assms r(3)] r NewLine show ?thesis by simp
next
  case (Paste content)
  from addMultipleInputs_ok [OF assms(1), of eng content] obtain m' where
    r: "addMultipleInputs eng m content = Some m'" "sheet_ok m'"
      "UndoSystem m' = UndoSystem m \<or> UndoSystem m' = UndoSystem (saveState m)"
    by (cases "content = []") auto
  from undo_ok_either [OF assms r(3)] r Paste show ?thesis by simp
next
  case (PasteTemplate inputTemplate)
  have s: "sheet_ok (saveState m)" "undo_ok (saveState m)"
    using assms by (simp_all add: saveState_undo_ok)
  from addMultipleInputs_ok [OF s(1), of eng inputTemplate] obtain m' where
    r: "addMultipleInputs eng (saveState m) inputTemplate = Some m'" "sheet_ok m'"
      "UndoSystem m' = UndoSystem (saveState m)
       \<or> UndoSystem m' = UndoSystem (saveState (saveState m))"
    by (cases "inputTemplate = []") auto
  from undo_ok_either [OF s r(3)] r PasteTemplate show ?thesis
    by (simp add: pasteInputTemplate_def)
next
  case (PasteText content)
  from handlePasteMessage_ok [OF assms(1), of eng content] obtain m' cmds where
    r: "handlePasteMessage eng m content = Some (m', cmds)" "sheet_ok m'"
      "UndoSystem m' = UndoSystem m \<or> UndoSystem m' = UndoSystem (saveState m)"
    by blast
  from undo_ok_either [OF assms r(3)] r PasteText show ?thesis by simp
next
  case (ClickResult clickedLine)
  from clickResult_ok [OF assms(1), of clickedLine] obtain m' cmds where
    r: "clickResult m clickedLine = Some (m', cmds)" "sheet_ok m'"
      "UndoSystem m' = UndoSystem m \<or> UndoSystem m' = UndoSystem (saveState m)"
    by (cases "0 \<le> clickedLine \<and> clickedLine < int (length (Results m))
                   \<and> Results m ! nat clickedLine \<noteq> []") auto
  from undo_ok_either [OF assms r(3)] r ClickResult show ?thesis by simp
next
  case (ClickInput clickedLine x)
  from clickInput_ok [OF assms(1), of clickedLine x] obtain m' where
    r: "clickInput m clickedLine x = Some m'" "sheet_ok m'" "UndoSystem m' = UndoSystem m"
    by blast
  from undo_ok_same [OF assms(2) r(3)] r ClickInput show ?thesis by simp
next
  case FocusPrevious
  from focus_moves_ok(1) [OF assms(1)] obtain m' where
    r: "focusPreviousLine m = Some m'" "sheet_ok m'" "UndoSystem m' = UndoSystem m"
    by blast
  from undo_ok_same [OF assms(2) r(3)] r FocusPrevious show ?thesis by simp
next
  case FocusNext
  from focus_moves_ok(2) [OF assms(1)] obtain m' where
    r: "focusNextLine m = Some m'" "sheet_ok m'" "UndoSystem m' = UndoSystem m"
    by blast
  from undo_ok_same [OF assms(2) r(3)] r FocusNext show ?thesis by simp
next
  case FocusFirst
  from focus_moves_ok(3) [OF assms(1)] obtain m' where
    r: "focusFirstLine m = Some m'" "sheet_ok m'" "UndoSystem m' = UndoSystem m"
    by blast
  from undo_ok_same [OF assms(2) r(3)] r FocusFirst show ?thesis by simp
next
  case FocusLast
  from focus_moves_ok(4) [OF assms(1)] obtain m' where
    r: "focusLastLine m = Some m'" "sheet_ok m'" "UndoSystem m' = UndoSystem m"
    by blast
  from undo_ok_same [OF assms(2) r(3)] r FocusLast show ?thesis by simp
next
  case (GoToLine n)
  from focus_moves_ok(5) [OF assms(1), of n] obtain m' where
    r: "goToLine m n = Some m'" "sheet_ok m'" "UndoSystem m' = UndoSystem m"
    by blast
  from undo_ok_same [OF assms(2) r(3)] r GoToLine show ?thesis by simp
next
  case (Completion msg)
  from handleCalculationMessage_ok [OF assms(1), of msg] obtain m' cmds where
    r: "handleCalculationMessage m msg = Some (m', cmds)" "sheet_ok m'"
      "UndoSystem m' = UndoSystem m"
    by blast
  from undo_ok_same [OF assms(2) r(3)] r Completion show ?thesis by simp
next
  case Undo
  with undo_preserves [OF assms] show ?thesis by simp
next
  case Redo
  with redo_preserves [OF assms] show ?thesis by simp
qed

lemma run_ok:
  "sheet_ok m \<Longrightarrow> undo_ok m \<Longrightarrow> \<exists>m'. run eng as m = Some m' \<and> sheet_ok m' \<and> undo_ok m'"
proof (induction as arbitrary: m)
  case Nil
  then show ?case by simp
next
  case (Cons a as)
  from step_ok [OF Cons.prems, of eng a] obtain m1 where
    s: "step eng a m = Some m1" "sheet_ok m1" "undo_ok m1" by blast
  from Cons.IH [OF s(2,3)] s(1) show ?case by simp
qed

lemma InitialModel_ok: "sheet_ok InitialModel \<and> undo_ok InitialModel"
  by (simp add: sheet_ok_def undo_ok_def InitialModel_def NewUndoSystem_def cursor_ok_def
      textinput_New_def)

lemma reachable_ok: "\<exists>m. run eng as InitialModel = Some m \<and> sheet_ok m \<and> undo_ok m"
  using InitialModel_ok run_ok by blast

lemma not_canRedo_redo: "\<not> canRedo m \<Longrightarrow> redo m = (False, m)"
  by (auto simp: canRedo_def redo_def split: option.splits)

lemma canRedo_cong: "UndoSystem m' = UndoSystem m \<Longrightarrow> canRedo m' = canRedo m"
  by (simp add: canRedo_def)

text \<open>
  C6. In every state that a run of the event loop reaches from the initial model, the
  undo stack holds at most 50 snapshots. The two pushes onto it, in \<open>saveState\<close> and in
  \<open>redo\<close>, append the snapshot of the current state when fewer than 50 are held, and drop
  the oldest one first when 50 are held.
\<close>

theorem undoStack_bounded:
  "\<exists>m us. run eng as InitialModel = Some m \<and> UndoSystem m = Some us
     \<and> maxSize us = 50 \<and> length (undoStack us) \<le> 50
     \<and> (\<exists>us'. UndoSystem (saveState m) = Some us'
           \<and> undoStack us' = (if length (undoStack us) < 50 then undoStack us @ [createSnapshot m]
                               else tl (undoStack us) @ [createSnapshot m]))
     \<and> (canRedo m \<longrightarrow>
          (\<exists>us'. UndoSystem (snd (redo m)) = Some us'
           \<and> undoStack us' = (if length (undoStack us) < 50 then undoStack us @ [createSnapshot m]
                               else tl (undoStack us) @ [createSnapshot m])))"
proof -
  from reachable_ok [of eng as] obtain m where m: "run eng as InitialModel = Some m" "undo_ok m"
    by blast
  then obtain us where us: "UndoSystem m = Some us" "maxSize us = 50"
    "length (undoStack us) \<le> 50"
    by (auto simp: undo_ok_def split: option.splits)
  have push: "pushLimited (undoStack us) s 50 =
      (if length (undoStack us) < 50 then undoStack us @ [s] else tl (undoStack us) @ [s])" for s
    using us(3) by (cases "undoStack us") (auto simp: pushLimited_def Let_def)
  have save: "\<exists>us'. UndoSystem (saveState m) = Some us'
           \<and> undoStack us' = (if length (undoStack us) < 50 then undoStack us @ [createSnapshot m]
                               else tl (undoStack us) @ [createSnapshot m])"
    using us by (simp add: saveState_def push)
  have re: "\<exists>us'. UndoSystem (snd (redo m)) = Some us'
           \<and> undoStack us' = (if length (undoStack us) < 50 then undoStack us @ [createSnapshot m]
                               else tl (undoStack us) @ [createSnapshot m])"
    if "canRedo m"
    using that us by (simp add: redo_def canRedo_def Let_def push)
  from re have re': "canRedo m \<longrightarrow>
          (\<exists>us'. UndoSystem (snd (redo m)) = Some us'
           \<and> undoStack us' = (if length (undoStack us) < 50 then undoStack us @ [createSnapshot m]
                               else tl (undoStack us) @ [createSnapshot m]))"
    by (rule impI)
  from m(1) us save re' have "run eng as InitialModel = Some m \<and> UndoSystem m = Some us
     \<and> maxSize us = 50 \<and> length (undoStack us) \<le> 50
     \<and> (\<exists>us'. UndoSystem (saveState m) = Some us'
           \<and> undoStack us' = (if length (undoStack us) < 50 then undoStack us @ [createSnapshot m]
                               else tl (undoStack us) @ [createSnapshot m]))
     \<and> (canRedo m \<longrightarrow>
          (\<exists>us'. UndoSystem (snd (redo m)) = Some us'
           \<and> undoStack us' = (if length (undoStack us) < 50 then undoStack us @ [createSnapshot m]
                               else tl (undoStack us) @ [createSnapshot m])))"
    by (intro conjI)
  then show ?thesis
    by - (rule exI, rule exI, assumption)
qed

theorem undoStack_bounded_witness:
  "map_option (\<lambda>m. map_option (\<lambda>us. length (undoStack us)) (UndoSystem m))
     (run \<lparr>calculate_expression = Map.empty, basicFunctions = [],
        advancedFunctions = [], prettyPrint = id,
         unicodeLowerCase = id\<rparr>
        (replicate 51 NewLine) InitialModel) = Some (Some 50)"
proof -
  have e: "map_option (\<lambda>m. map_option (\<lambda>us. 50 \<le> length (undoStack us)) (UndoSystem m))
             (run \<lparr>calculate_expression = Map.empty, basicFunctions = [],
        advancedFunctions = [], prettyPrint = id,
         unicodeLowerCase = id\<rparr>
        (replicate 51 NewLine) InitialModel) = Some (Some True)"
    by code_simp
  from undoStack_bounded [of "\<lparr>calculate_expression = Map.empty, basicFunctions = [],
        advancedFunctions = [], prettyPrint = id,
         unicodeLowerCase = id\<rparr>" "replicate 51 NewLine"] obtain m us where
    r: "run \<lparr>calculate_expression = Map.empty, basicFunctions = [],
        advancedFunctions = [], prettyPrint = id,
         unicodeLowerCase = id\<rparr>
        (replicate 51 NewLine) InitialModel = Some m" "UndoSystem m = Some us"
      "length (undoStack us) \<le> 50"
    by blast
  from e have "50 \<le> length (undoStack us)"
    unfolding r(1) by (simp add: r(2))
  with r show ?thesis by simp
qed

text \<open>
  C8. In every state that a run of the event loop reaches from the initial model, if the
  undo stack is not empty, \<open>undo\<close> and then \<open>redo\<close> both succeed and give back the texts
  of all lines, all results, the focused index and the cursor of the focused line: the
  snapshot of the state after the two equals the snapshot of the state before.
\<close>

theorem undo_redo_round_trip:
  "\<exists>m. run eng as InitialModel = Some m
     \<and> (canUndo m \<longrightarrow>
          fst (undo m) \<and> fst (redo (snd (undo m)))
          \<and> createSnapshot (snd (redo (snd (undo m)))) = createSnapshot m)"
  using reachable_ok [of eng as] undo_redo_snapshot by blast

theorem undo_redo_round_trip_witness:
  "map_option (\<lambda>m. (canUndo m, fst (undo m), fst (redo (snd (undo m))),
                    createSnapshot (snd (redo (snd (undo m)))) = createSnapshot m,
                    createSnapshot m))
     (run \<lparr>calculate_expression = Map.empty, basicFunctions = [],
        advancedFunctions = [], prettyPrint = id,
         unicodeLowerCase = id\<rparr>
          [TextEdit ''1+1'' 3, NewLine, TextEdit ''ans*2'' 5, Completion (CalculationMsg 1 ''4''),
           FocusPrevious, TextEdit ''1+1'' 2] InitialModel)
   = Some (True, True, True, True,
           \<lparr>InputValues = [''1+1'', ''ans*2''], Results_s = [[], ''4''], Focused_s = 0,
            CursorPos = 2\<rparr>)"
proof -
  let ?eng = "\<lparr>calculate_expression = Map.empty, basicFunctions = [],
        advancedFunctions = [], prettyPrint = id,
         unicodeLowerCase = id\<rparr>"
  let ?as = "[TextEdit ''1+1'' 3, NewLine, TextEdit ''ans*2'' 5, Completion (CalculationMsg 1 ''4''),
           FocusPrevious, TextEdit ''1+1'' 2]"
  have e: "map_option (\<lambda>m. (canUndo m, createSnapshot m)) (run ?eng ?as InitialModel)
           = Some (True, \<lparr>InputValues = [''1+1'', ''ans*2''], Results_s = [[], ''4''],
                          Focused_s = 0, CursorPos = 2\<rparr>)"
    by code_simp
  from undo_redo_round_trip [of ?eng ?as] obtain m where
    r: "run ?eng ?as InitialModel = Some m"
      "canUndo m \<longrightarrow> fst (undo m) \<and> fst (redo (snd (undo m)))
          \<and> createSnapshot (snd (redo (snd (undo m)))) = createSnapshot m"
    by blast
  from e have c: "canUndo m" "createSnapshot m = \<lparr>InputValues = [''1+1'', ''ans*2''],
      Results_s = [[], ''4''], Focused_s = 0, CursorPos = 2\<rparr>"
    unfolding r(1) by simp_all
  with r(2) show ?thesis unfolding r(1) by simp
qed

text \<open>
  C7, as amended. \<open>saveState\<close> empties the redo stack, and so does every handler that
  calls it: clearing the sheet, deleting a line, inserting a line, inserting a symbol,
  inserting a completion, inserting a reference by a click on a result, and adding pasted
  lines. \<open>redo\<close> right after any of them returns false and changes nothing. A plain edit
  of the text of a line calls no \<open>saveState\<close> and leaves the undo system, both stacks,
  as it was.
\<close>

theorem saveState_clears_redoStack:
  assumes "sheet_ok m"
  shows "redo (saveState m) = (False, saveState m)
     \<and> redo (clearAll m) = (False, clearAll m)
     \<and> (\<exists>m'. deleteLine m = Some m' \<and> redo m' = (False, m'))
     \<and> (\<exists>m'. createNewLine m = Some m' \<and> redo m' = (False, m'))
     \<and> (\<exists>m' cmds. insertSymbol m symbol = Some (m', cmds) \<and> redo m' = (False, m'))
     \<and> (\<exists>m'. insertCompletion m completion = Some m' \<and> redo m' = (False, m'))
     \<and> (0 \<le> clickedLine \<and> clickedLine < int (length (Results m))
            \<and> Results m ! nat clickedLine \<noteq> [] \<longrightarrow>
          (\<exists>m' cmds. clickResult m clickedLine = Some (m', cmds) \<and> redo m' = (False, m')))
     \<and> (content \<noteq> [] \<longrightarrow>
          (\<exists>m'. addMultipleInputs eng m content = Some m' \<and> redo m' = (False, m')))
     \<and> (\<exists>m' cmds. UpdateTextInput m \<lparr>Value = v, Position = min p (RuneCount v)\<rparr> = Some (m', cmds)
           \<and> UndoSystem m' = UndoSystem m)"
proof -
  have no: "redo m' = (False, m')" if "UndoSystem m' = UndoSystem (saveState m)" for m'
    using that saveState_no_redo [of m] canRedo_cong [of m' "saveState m"]
    by (simp add: not_canRedo_redo)
  have "cursor_ok \<lparr>Value = v, Position = min p (RuneCount v)\<rparr>"
    by (simp add: cursor_ok_def)
  from UpdateTextInput_ok [OF assms this] have e:
    "\<exists>m' cmds. UpdateTextInput m \<lparr>Value = v, Position = min p (RuneCount v)\<rparr> = Some (m', cmds)
           \<and> UndoSystem m' = UndoSystem m"
    by blast
  from deleteLine_ok [OF assms] obtain m1 where
    m1: "deleteLine m = Some m1" "UndoSystem m1 = UndoSystem (saveState m)" by blast
  from createNewLine_ok [OF assms] obtain m2 where
    m2: "createNewLine m = Some m2" "UndoSystem m2 = UndoSystem (saveState m)" by blast
  from insertSymbol_ok [OF assms, of symbol] obtain m3 cmds3 where
    m3: "insertSymbol m symbol = Some (m3, cmds3)" "UndoSystem m3 = UndoSystem (saveState m)"
    by blast
  from insertCompletion_ok [OF assms, of completion] obtain m4 where
    m4: "insertCompletion m completion = Some m4" "UndoSystem m4 = UndoSystem (saveState m)"
    by blast
  have a: "redo (saveState m) = (False, saveState m)" by (rule no) simp
  have b: "redo (clearAll m) = (False, clearAll m)" by (rule no) (simp add: clearAll_ok)
  have c: "\<exists>m'. deleteLine m = Some m' \<and> redo m' = (False, m')"
    using m1 no by blast
  have d: "\<exists>m'. createNewLine m = Some m' \<and> redo m' = (False, m')"
    using m2 no by blast
  have f: "\<exists>m' cmds. insertSymbol m symbol = Some (m', cmds) \<and> redo m' = (False, m')"
    using m3 no by blast
  have g: "\<exists>m'. insertCompletion m completion = Some m' \<and> redo m' = (False, m')"
    using m4 no by blast
  have h: "0 \<le> clickedLine \<and> clickedLine < int (length (Results m))
            \<and> Results m ! nat clickedLine \<noteq> [] \<longrightarrow>
          (\<exists>m' cmds. clickResult m clickedLine = Some (m', cmds) \<and> redo m' = (False, m'))"
  proof
    assume k: "0 \<le> clickedLine \<and> clickedLine < int (length (Results m))
            \<and> Results m ! nat clickedLine \<noteq> []"
    from clickResult_ok [OF assms, of clickedLine] obtain m5 cmds5 where
      "clickResult m clickedLine = Some (m5, cmds5)"
      "UndoSystem m5 = UndoSystem (saveState m)"
      unfolding if_P [OF k] by blast
    with no show "\<exists>m' cmds. clickResult m clickedLine = Some (m', cmds) \<and> redo m' = (False, m')"
      by blast
  qed
  have i: "content \<noteq> [] \<longrightarrow>
          (\<exists>m'. addMultipleInputs eng m content = Some m' \<and> redo m' = (False, m'))"
  proof
    assume k: "content \<noteq> []"
    from addMultipleInputs_ok [OF assms, of eng content] obtain m6 where
      "addMultipleInputs eng m content = Some m6" "UndoSystem m6 = UndoSystem (saveState m)"
      using k by auto
    with no show "\<exists>m'. addMultipleInputs eng m content = Some m' \<and> redo m' = (False, m')"
      by blast
  qed
  from a b c d f g h i e show ?thesis by (intro conjI)
qed

theorem saveState_clears_redoStack_witness:
  "redo (clearAll (snd (undo (clearAll InitialModel))))
     = (False, clearAll (snd (undo (clearAll InitialModel))))
   \<and> canRedo (snd (undo (clearAll InitialModel)))"
proof -
  have ok: "sheet_ok (snd (undo (clearAll InitialModel)))"
    by (intro conjunct1 [OF undo_preserves] conjunct1 [OF clearAll_ok]
        undo_ok_saved [OF _ _ conjunct2 [OF clearAll_ok]])
      (simp_all add: InitialModel_ok)
  have c: "canRedo (snd (undo (clearAll InitialModel)))"
    by code_simp
  from saveState_clears_redoStack [OF ok] c show ?thesis by blast
qed

text \<open>
  C7 as stated fails for a plain edit of a text: a line is inserted, the insertion is
  undone, and a character is typed into the line; \<open>redo\<close> is still available and
  succeeds.
\<close>

theorem text_edit_keeps_redoStack:
  "map_option (\<lambda>m. (map Value (Inputs m), canRedo m, fst (redo m)))
     (run \<lparr>calculate_expression = Map.empty, basicFunctions = [],
        advancedFunctions = [], prettyPrint = id,
         unicodeLowerCase = id\<rparr>
        [NewLine, Undo, TextEdit ''7'' 1] InitialModel) = Some ([''7''], True, True)"
  by code_simp

end
